theory Spec2Isabelle
  imports Complex_Main "HOL-Library.Word"
begin

unbundle bit_operations_syntax

text \<open>
  The temporal builtins of the evalengine package (NOW, SYSDATE, CURDATE, UTC_DATE,
  FROM_UNIXTIME, UNIX_TIMESTAMP, MAKEDATE, MAKETIME, the extraction functions, DATE_ADD and
  DATE_SUB): their evaluation, their static types and, for MAKEDATE and DATE_ADD, their
  compilation. An evaluation takes the environment and returns an error or a result
  together with the environment; compilation takes the compiler and returns an error or
  a type together with the compiler. Functions of other packages are parameters or are
  modelled where they are declared.
\<close>

section \<open>Go's standard library: instants, locations and the calendar\<close>

text \<open>
  A \<^verbatim>\<open>time.Time\<close> is an instant, counted in seconds and nanoseconds from the Unix epoch,
  together with the location it is shown in. A location is its method \<^verbatim>\<open>lookup\<close>: for an
  instant, in Unix seconds, the offset east of UTC in force at that instant, in seconds,
  and the first instant and the end of the period in which that offset is in force. A zone
  transition is the boundary between two periods. \<^verbatim>\<open>time.UTC\<close> and a fixed zone have one
  period, from \<open>alpha\<close> to \<open>omega\<close>; \<^verbatim>\<open>time.Local\<close> is a parameter of the functions that use
  it.
\<close>

type_synonym Location = "int \<Rightarrow> int \<times> int \<times> int"

definition alpha :: int where
  "alpha = - 9223372036854775808"

definition omega :: int where
  "omega = 9223372036854775807"

definition FixedZone :: "int \<Rightarrow> Location" where
  "FixedZone off = (\<lambda>sec. (off, alpha, omega))"

definition UTC :: Location where
  "UTC = FixedZone 0"

definition zoneOffset :: "Location \<Rightarrow> int \<Rightarrow> int" where
  "zoneOffset l sec = fst (l sec)"

record time_Time =
  unixSec :: int
  nsec :: int
  zone :: Location

text \<open>Days between 1970-01-01 and a civil date of the proleptic Gregorian calendar, and back.\<close>

definition daysFromCivil :: "int \<Rightarrow> int \<Rightarrow> int \<Rightarrow> int" where
  "daysFromCivil y m d =
     (let y' = (if m \<le> 2 then y - 1 else y);
          era = y' div 400;
          yoe = y' - era * 400;
          doy = (153 * (if m > 2 then m - 3 else m + 9) + 2) div 5 + d - 1;
          doe = yoe * 365 + yoe div 4 - yoe div 100 + doy
      in era * 146097 + doe - 719468)"

definition civilFromDays :: "int \<Rightarrow> int \<times> int \<times> int" where
  "civilFromDays z =
     (let z' = z + 719468;
          era = z' div 146097;
          doe = z' - era * 146097;
          yoe = (doe - doe div 1460 + doe div 36524 - doe div 146096) div 365;
          doy = doe - (365 * yoe + yoe div 4 - yoe div 100);
          mp = (5 * doy + 2) div 153;
          d = doy - (153 * mp + 2) div 5 + 1;
          m = (if mp < 10 then mp + 3 else mp - 9)
      in (if m \<le> 2 then yoe + era * 400 + 1 else yoe + era * 400, m, d))"

text \<open>\<^verbatim>\<open>time.Time{}\<close>: January 1, year 1, 00:00:00 UTC.\<close>

definition zeroTime :: time_Time where
  "zeroTime = \<lparr>unixSec = - 62135596800, nsec = 0, zone = UTC\<rparr>"

definition IsZero :: "time_Time \<Rightarrow> bool" where
  "IsZero t = (unixSec t = - 62135596800 \<and> nsec t = 0)"

text \<open>
  \<^verbatim>\<open>time.Date\<close> normalises a month outside 1..12 and a day outside the month, and counts
  the seconds of the wall-clock reading as if it were UTC (\<open>unix\<close>). It then looks the
  location up at \<open>unix\<close> and subtracts the offset it finds; when the instant so obtained is
  outside the period that was found, the offset is looked up again at that instant. A
  wall-clock reading that the location skips at a transition is thereby resolved with the
  offset in force after the transition, to an instant before it.
\<close>

definition time_Date ::
  "int \<Rightarrow> int \<Rightarrow> int \<Rightarrow> int \<Rightarrow> int \<Rightarrow> int \<Rightarrow> int \<Rightarrow> Location \<Rightarrow> time_Time" where
  "time_Date y m d h mi s ns l =
     (let m0 = m - 1;
          y' = y + m0 div 12;
          m' = m0 mod 12 + 1;
          unix = daysFromCivil y' m' d * 86400 + h * 3600 + mi * 60 + s + ns div 1000000000
      in case l unix of (offset, start, stop) \<Rightarrow>
           \<lparr>unixSec =
              (if offset \<noteq> 0
               then (let utc = unix - offset
                     in if utc < start \<or> utc \<ge> stop then unix - zoneOffset l utc
                        else unix - offset)
               else unix),
            nsec = ns mod 1000000000,
            zone = l\<rparr>)"

text \<open>
  \<^verbatim>\<open>t.Date()\<close> and \<^verbatim>\<open>t.Clock()\<close>: the civil reading of the instant in its location, with
  the offset the location has at that instant.
\<close>

definition civilDate :: "time_Time \<Rightarrow> int \<times> int \<times> int" where
  "civilDate t = civilFromDays ((unixSec t + zoneOffset (zone t) (unixSec t)) div 86400)"

definition civilClock :: "time_Time \<Rightarrow> int \<times> int \<times> int" where
  "civilClock t =
     (let sod = (unixSec t + zoneOffset (zone t) (unixSec t)) mod 86400
      in (sod div 3600, (sod mod 3600) div 60, sod mod 60))"

definition time_Year :: "time_Time \<Rightarrow> int" where
  "time_Year t = fst (civilDate t)"

definition AddDate :: "time_Time \<Rightarrow> int \<Rightarrow> int \<Rightarrow> int \<Rightarrow> time_Time" where
  "AddDate t years months days =
     (case civilDate t of (y, m, d) \<Rightarrow>
        (case civilClock t of (h, mi, s) \<Rightarrow>
           time_Date (y + years) (m + months) (d + days) h mi s (nsec t) (zone t)))"

text \<open>\<^verbatim>\<open>time.Unix(sec, nsec)\<close> gives the instant in the local location; \<^verbatim>\<open>t.In(loc)\<close> keeps
  the instant and changes the location; \<^verbatim>\<open>t.Unix()\<close> reads the seconds.\<close>

definition time_Unix :: "Location \<Rightarrow> int \<Rightarrow> int \<Rightarrow> time_Time" where
  "time_Unix local sec ns =
     \<lparr>unixSec = sec + ns div 1000000000, nsec = ns mod 1000000000, zone = local\<rparr>"

definition In :: "time_Time \<Rightarrow> Location \<Rightarrow> time_Time" where
  "In t l = t\<lparr>zone := l\<rparr>"

definition MaxInt32 :: int where
  "MaxInt32 = 2147483647"

definition MaxInt64 :: int where
  "MaxInt64 = 9223372036854775807"

text \<open>The conversion \<^verbatim>\<open>int64(u)\<close> of an unsigned 64-bit value wraps.\<close>

definition int64_of_uint64 :: "nat \<Rightarrow> int" where
  "int64_of_uint64 u =
     (if int u mod 18446744073709551616 \<le> MaxInt64 then int u mod 18446744073709551616
      else int u mod 18446744073709551616 - 18446744073709551616)"

subsection \<open>float64\<close>

text \<open>
  A float64 is its IEEE-754 binary64 bit pattern. Comparison is defined on the bits; the
  arithmetic and the conversions of the Go runtime are parameters (fields of \<open>lib\<close> below).
\<close>

type_synonym float64 = "64 word"

definition f64_isNaN :: "float64 \<Rightarrow> bool" where
  "f64_isNaN f = (uint (f AND 0x7FFFFFFFFFFFFFFF) > 0x7FF0000000000000)"

definition f64_key :: "float64 \<Rightarrow> int" where
  "f64_key f =
     (if bit f 63 then - uint (f AND 0x7FFFFFFFFFFFFFFF) else uint (f AND 0x7FFFFFFFFFFFFFFF))"

definition f64_lt :: "float64 \<Rightarrow> float64 \<Rightarrow> bool" where
  "f64_lt a b = (\<not> f64_isNaN a \<and> \<not> f64_isNaN b \<and> f64_key a < f64_key b)"

definition f64_ge :: "float64 \<Rightarrow> float64 \<Rightarrow> bool" where
  "f64_ge a b = (\<not> f64_isNaN a \<and> \<not> f64_isNaN b \<and> f64_key a \<ge> f64_key b)"

definition f64_0 :: float64 where "f64_0 = 0"
definition f64_59 :: float64 where "f64_59 = 0x404D800000000000"
definition f64_60 :: float64 where "f64_60 = 0x404E000000000000"
definition f64_1e9 :: float64 where "f64_1e9 = 0x41CDCD6500000000"


text \<open>A \<^verbatim>\<open>decimal.Decimal\<close> is an exact decimal number; it is represented by its value.\<close>

type_synonym Decimal = rat

section \<open>The runtime value model\<close>

text \<open>
  Modelled from the spec: \<^verbatim>\<open>sqltypes.Type\<close> and \<^verbatim>\<open>typeFlag\<close> are not in the source. The type
  tags are those this file names, and one constructor for all others. The type flags are
  a set of bits; \<open>f | flagNullable\<close> is \<open>insert flagNullable f\<close> and the flags \<open>0\<close> are the
  empty set.
\<close>

datatype sqltypes_Type =
  Null_type | Int64 | Uint64 | Float64 | Decimal | Char_t | VarChar | VarBinary
  | Date | Time | Datetime | Timestamp | OtherType nat

datatype flag = flagNull | flagNullable | flagHex | flagBit | flagAmbiguousType | flagOther nat

type_synonym typeFlag = "flag set"

text \<open>
  Modelled from the spec: the collations are not in the source; they are consumed by id.
  \<open>zeroCollation\<close> is \<^verbatim>\<open>collations.TypedCollation{}\<close>.
\<close>

datatype TypedCollation =
  zeroCollation | collationBinary | collationNumeric | defaultCoercionCollation nat

text \<open>
  Modelled from the spec: the structs of package datetime are not in the source. A temporal
  value is a date, a time, or both, with a fractional-second precision.
\<close>

record datetime_Date =
  d_year :: nat
  d_month :: nat
  d_day :: nat

record datetime_Time =
  t_hour :: nat
  t_minute :: nat
  t_second :: nat
  t_nanosecond :: nat
  t_neg :: bool

record datetime_DateTime =
  dt_Date :: datetime_Date
  dt_Time :: datetime_Time

definition zeroDate :: datetime_Date where
  "zeroDate = \<lparr>d_year = 0, d_month = 0, d_day = 0\<rparr>"

definition zeroClock :: datetime_Time where
  "zeroClock = \<lparr>t_hour = 0, t_minute = 0, t_second = 0, t_nanosecond = 0, t_neg = False\<rparr>"

text \<open>
  Modelled from the spec: \<^verbatim>\<open>datetime.NewDateTimeFromStd\<close> is not in the source. It reads the
  civil date and clock of the instant in its location.
\<close>

definition NewDateTimeFromStd :: "time_Time \<Rightarrow> datetime_DateTime" where
  "NewDateTimeFromStd t =
     (case civilDate t of (y, m, d) \<Rightarrow>
        (case civilClock t of (h, mi, s) \<Rightarrow>
           \<lparr>dt_Date = \<lparr>d_year = nat y, d_month = nat m, d_day = nat d\<rparr>,
            dt_Time = \<lparr>t_hour = nat h, t_minute = nat mi, t_second = nat s,
                       t_nanosecond = nat (nsec t), t_neg = False\<rparr>\<rparr>))"

text \<open>
  Modelled from the spec: \<^verbatim>\<open>datetime.Date.Quarter\<close> is not in the source. The calendar quarter
  of the month; the zero month has quarter 0.
\<close>

definition Date_Quarter :: "datetime_Date \<Rightarrow> int" where
  "Date_Quarter d = (int (d_month d) + 2) div 3"

record evalBytes =
  bytes_tt :: sqltypes_Type
  bytes_col :: TypedCollation
  bytes :: string
  isHexLiteral :: bool
  isBitLiteral :: bool

record evalTemporal =
  tmp_t :: sqltypes_Type
  tmp_dt :: datetime_DateTime
  tmp_prec :: nat

text \<open>
  Modelled from the spec: the types of the runtime values are not in the source. A value is
  a signed or unsigned 64-bit integer, a float, a decimal with its scale (\<^verbatim>\<open>length\<close>), a
  byte string or a temporal value. An \<^verbatim>\<open>eval\<close> that is \<^verbatim>\<open>nil\<close> is SQL NULL: a result is an
  \<open>eval option\<close>, and \<open>None\<close> is null. An evaluation returns an error or a result; a
  panic on an index out of range is the error \<open>IndexOutOfRange\<close>, and a panic on reading
  a field through a nil pointer is the error \<open>NilPointerDereference\<close>.
\<close>

datatype eval =
  EvalInt64 int
  | EvalUint64 nat
  | EvalFloat float64
  | EvalDecimal Decimal int
  | EvalBytes evalBytes
  | EvalTemporal evalTemporal

datatype error = IndexOutOfRange | NilPointerDereference | Failure string

text \<open>Modelled from the spec: \<^verbatim>\<open>evalBytes.isHexOrBitLiteral\<close> is not in the source.\<close>

definition isHexOrBitLiteral :: "evalBytes \<Rightarrow> bool" where
  "isHexOrBitLiteral e = (isHexLiteral e \<or> isBitLiteral e)"

text \<open>
  Modelled from the spec: \<^verbatim>\<open>evalTemporal.isZero\<close> is not in the source. The zero date
  0000-00-00 with a zero clock.
\<close>

definition isZero :: "evalTemporal \<Rightarrow> bool" where
  "isZero e = (dt_Date (tmp_dt e) = zeroDate \<and> dt_Time (tmp_dt e) = zeroClock)"

text \<open>Modelled from the spec: the constructors of runtime values are not in the source.\<close>

definition newEvalInt64 :: "int \<Rightarrow> eval" where
  "newEvalInt64 i = EvalInt64 i"

definition newEvalRaw :: "sqltypes_Type \<Rightarrow> string \<Rightarrow> TypedCollation \<Rightarrow> eval" where
  "newEvalRaw typ raw coll =
     EvalBytes \<lparr>bytes_tt = typ, bytes_col = coll, bytes = raw,
                isHexLiteral = False, isBitLiteral = False\<rparr>"

definition newEvalText :: "string \<Rightarrow> TypedCollation \<Rightarrow> eval" where
  "newEvalText raw coll = newEvalRaw VarChar raw coll"

definition newEvalDecimalWithPrec :: "Decimal \<Rightarrow> int \<Rightarrow> eval" where
  "newEvalDecimalWithPrec dec p = EvalDecimal dec p"

definition newEvalDateTime :: "datetime_DateTime \<Rightarrow> int \<Rightarrow> evalTemporal" where
  "newEvalDateTime d l = \<lparr>tmp_t = Datetime, tmp_dt = d, tmp_prec = nat l\<rparr>"

definition newEvalDate :: "datetime_Date \<Rightarrow> evalTemporal" where
  "newEvalDate d = \<lparr>tmp_t = Date, tmp_dt = \<lparr>dt_Date = d, dt_Time = zeroClock\<rparr>, tmp_prec = 0\<rparr>"

definition newEvalTime :: "datetime_Time \<Rightarrow> int \<Rightarrow> evalTemporal" where
  "newEvalTime c l = \<lparr>tmp_t = Time, tmp_dt = \<lparr>dt_Date = zeroDate, dt_Time = c\<rparr>, tmp_prec = nat l\<rparr>"

text \<open>
  Modelled from the spec: interval units and intervals of package datetime are not in the
  source. A unit has date parts (year, month, day), time parts (hour, minute, second,
  microsecond), or both.
\<close>

datatype IntervalType =
  IntervalMicrosecond | IntervalSecond | IntervalMinute | IntervalHour | IntervalDay
  | IntervalWeek | IntervalMonth | IntervalQuarter | IntervalYear
  | IntervalSecondMicrosecond | IntervalMinuteMicrosecond | IntervalMinuteSecond
  | IntervalHourMicrosecond | IntervalHourSecond | IntervalHourMinute
  | IntervalDayMicrosecond | IntervalDaySecond | IntervalDayMinute | IntervalDayHour
  | IntervalYearMonth

fun HasTimeParts :: "IntervalType \<Rightarrow> bool" where
  "HasTimeParts IntervalDay = False"
| "HasTimeParts IntervalWeek = False"
| "HasTimeParts IntervalMonth = False"
| "HasTimeParts IntervalQuarter = False"
| "HasTimeParts IntervalYear = False"
| "HasTimeParts IntervalYearMonth = False"
| "HasTimeParts _ = True"

fun HasDateParts :: "IntervalType \<Rightarrow> bool" where
  "HasDateParts IntervalMicrosecond = False"
| "HasDateParts IntervalSecond = False"
| "HasDateParts IntervalMinute = False"
| "HasDateParts IntervalHour = False"
| "HasDateParts IntervalSecondMicrosecond = False"
| "HasDateParts IntervalMinuteMicrosecond = False"
| "HasDateParts IntervalMinuteSecond = False"
| "HasDateParts IntervalHourMicrosecond = False"
| "HasDateParts IntervalHourSecond = False"
| "HasDateParts IntervalHourMinute = False"
| "HasDateParts _ = True"

record datetime_Interval =
  itv_unit :: IntervalType
  itv_parts :: "int list"
  itv_negate :: bool

datatype Strftime = Time_hh_mm_ss | DateTime_YYYY_MM_DD_hh_mm_ss | Date_YYYY_MM_DD

section \<open>The functions this file calls that are not in the source\<close>

text \<open>
  The conversions of package evalengine, the parsers and formatters of package datetime,
  the operations on float64 and the process's local time zone are parameters: a builtin
  takes the record \<open>L\<close> and calls its fields where the source calls the function.
  \<^verbatim>\<open>evalBytes.toNumericHex\<close> returns a pointer and a flag; the flag is false exactly when
  the pointer is nil, which is the result \<open>None\<close>.
\<close>

record lib =
  Local :: Location
  Modf :: "float64 \<Rightarrow> float64 \<times> float64"
  int64_of_float64 :: "float64 \<Rightarrow> int"
  float64_of_int64 :: "int \<Rightarrow> float64"
  f64_mul :: "float64 \<Rightarrow> float64 \<Rightarrow> float64"
  f64_add :: "float64 \<Rightarrow> float64 \<Rightarrow> float64"
  f64_neg :: "float64 \<Rightarrow> float64"
  decimal_Int64 :: "Decimal \<Rightarrow> int"
  evalToInt64 :: "eval \<Rightarrow> int"
  evalToNumeric :: "eval \<Rightarrow> bool \<Rightarrow> eval"
  numeric_toInt64 :: "eval \<Rightarrow> int"
  evalToFloat :: "eval \<Rightarrow> float64"
  evalToDate :: "eval \<Rightarrow> evalTemporal option"
  evalToDateTime :: "eval \<Rightarrow> int \<Rightarrow> evalTemporal option"
  evalToTemporal :: "eval \<Rightarrow> evalTemporal option"
  evalToBinary :: "eval option \<Rightarrow> evalBytes"
  toNumericHex :: "evalBytes \<Rightarrow> nat option"
  temporal_toInt64 :: "evalTemporal \<Rightarrow> int"
  temporal_toDecimal :: "evalTemporal \<Rightarrow> Decimal"
  toDateTime :: "evalTemporal \<Rightarrow> int \<Rightarrow> evalTemporal"
  addInterval :: "evalTemporal \<Rightarrow> datetime_Interval \<Rightarrow> TypedCollation \<Rightarrow> eval option"
  Strftime_Format :: "Strftime \<Rightarrow> datetime_DateTime \<Rightarrow> nat \<Rightarrow> string"
  DateTime_Format :: "datetime_DateTime \<Rightarrow> nat \<Rightarrow> string"
  datetime_Format :: "string \<Rightarrow> datetime_DateTime \<Rightarrow> nat \<Rightarrow> error + string"
  ParseTimeInt64 :: "int \<Rightarrow> datetime_Time \<times> bool"
  ParseTimeDecimal :: "Decimal \<Rightarrow> int \<Rightarrow> int \<Rightarrow> datetime_Time \<times> int \<times> bool"
  ParseTimeFloat :: "float64 \<Rightarrow> int \<Rightarrow> datetime_Time \<times> int \<times> bool"
  ParseInterval :: "string \<Rightarrow> IntervalType \<Rightarrow> bool \<Rightarrow> datetime_Interval option"
  ParseIntervalFloat :: "float64 \<Rightarrow> IntervalType \<Rightarrow> bool \<Rightarrow> datetime_Interval option"
  ParseIntervalDecimal ::
    "Decimal \<Rightarrow> int \<Rightarrow> IntervalType \<Rightarrow> bool \<Rightarrow> datetime_Interval option"
  ParseIntervalInt64 :: "int \<Rightarrow> IntervalType \<Rightarrow> bool \<Rightarrow> datetime_Interval option"
  DateTime_ToStdTime :: "datetime_DateTime \<Rightarrow> Location \<Rightarrow> time_Time"
  Date_ToStdTime :: "datetime_Date \<Rightarrow> Location \<Rightarrow> time_Time"
  time_Weekday :: "time_Time \<Rightarrow> int"
  time_YearDay :: "time_Time \<Rightarrow> int"
  Date_Weekday :: "datetime_Date \<Rightarrow> int"
  Date_Week :: "datetime_Date \<Rightarrow> int \<Rightarrow> int"
  Date_ISOWeek :: "datetime_Date \<Rightarrow> int \<times> int"
  Date_YearWeek :: "datetime_Date \<Rightarrow> int \<Rightarrow> int"

section \<open>yearDayToTime\<close>

definition yearDayToTime :: "Location \<Rightarrow> int \<Rightarrow> int \<Rightarrow> time_Time" where
  "yearDayToTime local y0 yd =
     (let y = (if y0 \<ge> 0 \<and> y0 < 100 then (if y0 < 70 then y0 + 2000 else y0 + 1900) else y0)
      in if y < 0 \<or> y > 9999 \<or> yd < 1 \<or> yd > MaxInt32 then zeroTime
         else (let t = AddDate (time_Date y 1 1 0 0 0 0 local) 0 0 (yd - 1)
               in if time_Year t > 9999 then zeroTime else t))"

section \<open>clampHourMinute and makeTime\<close>

definition clampHourMinute :: "int \<Rightarrow> int \<Rightarrow> int \<times> int \<times> bool \<times> bool" where
  "clampHourMinute h0 m0 =
     (let clamped = (h0 > 838 \<or> h0 < - 838);
          h = (if clamped then (if h0 > 0 then 838 else - 838) else h0);
          m = (if clamped then 59 else m0);
          neg = (h < 0)
      in ((if neg then - h else h), m, neg, clamped))"

definition makeTime_i :: "int \<Rightarrow> int \<Rightarrow> int \<Rightarrow> int \<times> bool" where
  "makeTime_i h0 m0 s0 =
     (if m0 < 0 \<or> m0 > 59 \<or> s0 < 0 \<or> s0 > 59 then (0, False)
      else (case clampHourMinute h0 m0 of (h, m, neg, clamped) \<Rightarrow>
              (let s = (if clamped then 59 else s0);
                   v = h * 10000 + m * 100 + s
               in ((if neg then - v else v), True))))"

definition makeTime_d :: "int \<Rightarrow> int \<Rightarrow> Decimal \<Rightarrow> Decimal \<times> bool" where
  "makeTime_d h0 m0 s0 =
     (if m0 < 0 \<or> m0 > 59 \<or> s0 < 0 \<or> s0 \<ge> 60 then (0, False)
      else (case clampHourMinute h0 m0 of (h, m, neg, clamped) \<Rightarrow>
              (let s = (if clamped then 59 else s0);
                   dec = of_int (h * 10000 + m * 100) + s
               in ((if neg then - dec else dec), True))))"

definition makeTime_f :: "lib \<Rightarrow> int \<Rightarrow> int \<Rightarrow> float64 \<Rightarrow> float64 \<times> bool" where
  "makeTime_f F h0 m0 s0 =
     (if m0 < 0 \<or> m0 > 59 \<or> f64_lt s0 f64_0 \<or> f64_ge s0 f64_60 then (f64_0, False)
      else (case clampHourMinute h0 m0 of (h, m, neg, clamped) \<Rightarrow>
              (let s = (if clamped then f64_59 else s0);
                   v = f64_add F (float64_of_int64 F (h * 10000 + m * 100)) s
               in ((if neg then f64_neg F v else v), True))))"

section \<open>The environment, expressions and call nodes\<close>

text \<open>
  Modelled from the spec: \<^verbatim>\<open>ExpressionEnv\<close> is not in the source. It holds the instant
  cached for the statement (field \<^verbatim>\<open>now\<close>, which \<^verbatim>\<open>builtinUnixTimestamp.eval\<close> reads) and the
  session time zone; \<^verbatim>\<open>env.time(utc)\<close> serves the cached instant and
  \<^verbatim>\<open>env.currentTimezone()\<close> the zone, which may be nil. Whatever else the environment
  carries is the extension of the record.
\<close>

record ExpressionEnv =
  env_now :: time_Time
  env_tz :: "Location option"

definition currentTimezone :: "'x ExpressionEnv_scheme \<Rightarrow> Location option" where
  "currentTimezone env = env_tz env"

definition env_time :: "'x ExpressionEnv_scheme \<Rightarrow> bool \<Rightarrow> datetime_DateTime" where
  "env_time env utc_flag =
     (if utc_flag then NewDateTimeFromStd (In (env_now env) UTC)
      else NewDateTimeFromStd (env_now env))"

typedecl querypb_Field

text \<open>
  Modelled from the spec: the compiled type descriptor \<^verbatim>\<open>ctype\<close> and its method
  \<^verbatim>\<open>nullable\<close> are not in the source. It holds the result type, the flags and the collation.
\<close>

record ctype =
  Type :: sqltypes_Type
  Flag :: typeFlag
  Col :: TypedCollation

definition zero_ctype :: ctype where
  "zero_ctype = \<lparr>Type = Null_type, Flag = {}, Col = zeroCollation\<rparr>"

definition nullable :: "ctype \<Rightarrow> bool" where
  "nullable ct = (flagNullable \<in> Flag ct)"

text \<open>
  Modelled from the spec: the assembler is not in the source. The compiler appends
  instructions to a program; a null check holds the address of a jump, and
  \<^verbatim>\<open>jumpDestination\<close> resolves every jump it is given to the next instruction to be emitted.
  \<open>Op\<close> stands for the instructions of an argument's own sub-program.
\<close>

datatype instr =
  Op nat
  | NullCheck1 nat
  | NullCheck1r nat
  | Convert_xi nat
  | Fn_MAKEDATE
  | Fn_DATEADD_D IntervalType bool
  | Fn_DATEADD_s IntervalType bool TypedCollation

record jump =
  jump_from :: nat
  jump_to :: "nat option"

record compiler =
  ins :: "instr list"
  jumps :: "jump list"
  cfg_Collation :: nat

definition emit :: "instr \<Rightarrow> compiler \<Rightarrow> compiler" where
  "emit i c = c\<lparr>ins := ins c @ [i]\<rparr>"

definition jumpFrom :: "compiler \<Rightarrow> nat \<times> compiler" where
  "jumpFrom c =
     (length (jumps c), c\<lparr>jumps := jumps c @ [\<lparr>jump_from = length (ins c), jump_to = None\<rparr>]\<rparr>)"

definition compileNullCheck1 :: "ctype \<Rightarrow> compiler \<Rightarrow> nat option \<times> compiler" where
  "compileNullCheck1 ct c =
     (if nullable ct then (case jumpFrom c of (j, c1) \<Rightarrow> (Some j, emit (NullCheck1 j) c1))
      else (None, c))"

definition compileNullCheck1r :: "ctype \<Rightarrow> compiler \<Rightarrow> nat option \<times> compiler" where
  "compileNullCheck1r ct c =
     (if nullable ct then (case jumpFrom c of (j, c1) \<Rightarrow> (Some j, emit (NullCheck1r j) c1))
      else (None, c))"

fun jumpDestination :: "nat option list \<Rightarrow> compiler \<Rightarrow> compiler" where
  "jumpDestination [] c = c"
| "jumpDestination (None # js) c = jumpDestination js c"
| "jumpDestination (Some j # js) c =
     jumpDestination js
       (if j < length (jumps c)
        then c\<lparr>jumps := (jumps c)[j := (jumps c ! j)\<lparr>jump_to := Some (length (ins c))\<rparr>]\<rparr>
        else c)"

text \<open>
  An expression is what the interface \<^verbatim>\<open>Expr\<close> offers: evaluation against the environment
  (a pointer in the source, so the environment is passed on), the static type, and
  compilation, which appends to the program.
\<close>

record 'x Expr =
  expr_eval :: "'x ExpressionEnv_scheme \<Rightarrow> (error + eval option) \<times> 'x ExpressionEnv_scheme"
  expr_typeof :: "'x ExpressionEnv_scheme \<Rightarrow> querypb_Field list \<Rightarrow> sqltypes_Type \<times> typeFlag"
  expr_compile :: "compiler \<Rightarrow> (error + ctype) \<times> compiler"

record 'x CallExpr =
  Arguments :: "'x Expr list"
  Method :: string

record 'x builtinNow = "'x CallExpr" +
  utc :: bool
  onlyTime :: bool
  now_prec :: nat

record 'x builtinSysdate = "'x CallExpr" +
  sysdate_prec :: nat

record 'x builtinFromUnixtime = "'x CallExpr" +
  fu_collate :: nat

record 'x builtinDateMath = "'x CallExpr" +
  dm_sub :: bool
  dm_unit :: IntervalType
  dm_collate :: nat

text \<open>\<^verbatim>\<open>b.Arguments[i]\<close> panics when the index is out of range.\<close>

definition evalArg ::
  "('x, 'm) CallExpr_scheme \<Rightarrow> nat \<Rightarrow> 'x ExpressionEnv_scheme
     \<Rightarrow> (error + eval option) \<times> 'x ExpressionEnv_scheme" where
  "evalArg b i env =
     (if i < length (Arguments b) then expr_eval (Arguments b ! i) env
      else (Inl IndexOutOfRange, env))"

definition typeofArg ::
  "('x, 'm) CallExpr_scheme \<Rightarrow> nat \<Rightarrow> 'x ExpressionEnv_scheme \<Rightarrow> querypb_Field list
     \<Rightarrow> error + sqltypes_Type \<times> typeFlag" where
  "typeofArg b i env flds =
     (if i < length (Arguments b) then Inr (expr_typeof (Arguments b ! i) env flds)
      else Inl IndexOutOfRange)"

definition compileArg ::
  "('x, 'm) CallExpr_scheme \<Rightarrow> nat \<Rightarrow> compiler \<Rightarrow> (error + ctype) \<times> compiler" where
  "compileArg b i c =
     (if i < length (Arguments b) then expr_compile (Arguments b ! i) c
      else (Inl IndexOutOfRange, c))"

text \<open>Modelled from the spec: \<^verbatim>\<open>CallExpr.arg1\<close> is not in the source; it evaluates the first
  argument.\<close>

definition arg1 ::
  "('x, 'm) CallExpr_scheme \<Rightarrow> 'x ExpressionEnv_scheme
     \<Rightarrow> (error + eval option) \<times> 'x ExpressionEnv_scheme" where
  "arg1 b env = evalArg b 0 env"

section \<open>The clock-reading builtins\<close>

definition builtinNow_eval ::
  "lib \<Rightarrow> ('x, 'm) builtinNow_scheme \<Rightarrow> 'x ExpressionEnv_scheme
     \<Rightarrow> (error + eval option) \<times> 'x ExpressionEnv_scheme" where
  "builtinNow_eval L call env =
     (let n = env_time env (utc call)
      in if onlyTime call
         then (Inr (Some (newEvalRaw Time
                 (Strftime_Format L Time_hh_mm_ss n (now_prec call)) collationBinary)), env)
         else (Inr (Some (newEvalRaw Datetime
                 (Strftime_Format L DateTime_YYYY_MM_DD_hh_mm_ss n (now_prec call))
                 collationBinary)), env))"

definition builtinNow_typeof :: "('x, 'm) builtinNow_scheme \<Rightarrow> sqltypes_Type \<times> typeFlag" where
  "builtinNow_typeof call = (if onlyTime call then (Time, {}) else (Datetime, {}))"

text \<open>\<^verbatim>\<open>SystemTime\<close> is the injectable clock; its reading at the call is the argument
  \<open>SystemTime\<close>.\<close>

definition builtinSysdate_eval ::
  "lib \<Rightarrow> time_Time \<Rightarrow> ('x, 'm) builtinSysdate_scheme \<Rightarrow> 'x ExpressionEnv_scheme
     \<Rightarrow> (error + eval option) \<times> 'x ExpressionEnv_scheme" where
  "builtinSysdate_eval L SystemTime call env =
     (let n = (case currentTimezone env of Some z \<Rightarrow> In SystemTime z | None \<Rightarrow> SystemTime)
      in (Inr (Some (newEvalRaw Datetime
            (DateTime_Format L (NewDateTimeFromStd n) (sysdate_prec call)) collationBinary)),
          env))"

definition builtinSysdate_typeof ::
  "('x, 'm) builtinSysdate_scheme \<Rightarrow> sqltypes_Type \<times> typeFlag" where
  "builtinSysdate_typeof call = (Datetime, {})"

definition builtinCurdate_eval ::
  "lib \<Rightarrow> ('x, 'm) CallExpr_scheme \<Rightarrow> 'x ExpressionEnv_scheme
     \<Rightarrow> (error + eval option) \<times> 'x ExpressionEnv_scheme" where
  "builtinCurdate_eval L call env =
     (let n = env_time env False
      in (Inr (Some (newEvalRaw Date (Strftime_Format L Date_YYYY_MM_DD n 0) collationBinary)),
          env))"

definition builtinCurdate_typeof :: "('x, 'm) CallExpr_scheme \<Rightarrow> sqltypes_Type \<times> typeFlag" where
  "builtinCurdate_typeof call = (Date, {})"

definition builtinUtcDate_eval ::
  "lib \<Rightarrow> ('x, 'm) CallExpr_scheme \<Rightarrow> 'x ExpressionEnv_scheme
     \<Rightarrow> (error + eval option) \<times> 'x ExpressionEnv_scheme" where
  "builtinUtcDate_eval L call env =
     (let n = env_time env True
      in (Inr (Some (newEvalRaw Date (Strftime_Format L Date_YYYY_MM_DD n 0) collationBinary)),
          env))"

definition builtinUtcDate_typeof :: "('x, 'm) CallExpr_scheme \<Rightarrow> sqltypes_Type \<times> typeFlag" where
  "builtinUtcDate_typeof call = (Date, {})"

section \<open>UNIX_TIMESTAMP\<close>

definition dateTimeUnixTimestamp :: "lib \<Rightarrow> 'x ExpressionEnv_scheme \<Rightarrow> eval \<Rightarrow> eval" where
  "dateTimeUnixTimestamp L env date =
     (let fallback =
            (case date of
               EvalInt64 _ \<Rightarrow> newEvalInt64 0
             | EvalUint64 _ \<Rightarrow> newEvalInt64 0
             | EvalDecimal _ len \<Rightarrow> newEvalDecimalWithPrec 0 len
             | EvalBytes d \<Rightarrow>
                 if isHexLiteral d then newEvalInt64 0 else newEvalDecimalWithPrec 0 6
             | _ \<Rightarrow> newEvalDecimalWithPrec 0 6);
          r = (case date of
                 EvalTemporal e \<Rightarrow> Inr (toDateTime L e (int (tmp_prec e)))
               | _ \<Rightarrow>
                   (case evalToDateTime L date (- 1) of
                      None \<Rightarrow> Inl fallback
                    | Some d \<Rightarrow> if isZero d then Inl fallback else Inr d))
      in case r of
           Inl v \<Rightarrow> v
         | Inr d \<Rightarrow>
             (let z = (case currentTimezone env of Some z \<Rightarrow> z | None \<Rightarrow> Local L);
                  ts = DateTime_ToStdTime L (tmp_dt d) z
              in if tmp_prec d = 0 then newEvalInt64 (unixSec ts)
                 else newEvalDecimalWithPrec
                        (of_int (unixSec ts)
                           + of_int (int (t_nanosecond (dt_Time (tmp_dt d)))) / 1000000000)
                        (int (tmp_prec d))))"

definition builtinUnixTimestamp_eval ::
  "lib \<Rightarrow> ('x, 'm) CallExpr_scheme \<Rightarrow> 'x ExpressionEnv_scheme
     \<Rightarrow> (error + eval option) \<times> 'x ExpressionEnv_scheme" where
  "builtinUnixTimestamp_eval L b env =
     (if length (Arguments b) = 0 then (Inr (Some (newEvalInt64 (unixSec (env_now env)))), env)
      else (case arg1 b env of
              (Inl err, env1) \<Rightarrow> (Inl err, env1)
            | (Inr None, env1) \<Rightarrow> (Inr None, env1)
            | (Inr (Some date), env1) \<Rightarrow>
                (Inr (Some (dateTimeUnixTimestamp L env1 date)), env1)))"

definition builtinUnixTimestamp_typeof ::
  "('x, 'm) CallExpr_scheme \<Rightarrow> 'x ExpressionEnv_scheme \<Rightarrow> querypb_Field list
     \<Rightarrow> error + sqltypes_Type \<times> typeFlag" where
  "builtinUnixTimestamp_typeof b env flds =
     (if length (Arguments b) = 0 then Inr (Int64, {})
      else (case typeofArg b 0 env flds of
              Inl err \<Rightarrow> Inl err
            | Inr (_, f) \<Rightarrow> Inr (Int64, insert flagAmbiguousType f)))"

section \<open>Extraction builtins\<close>

definition builtinDate_eval ::
  "lib \<Rightarrow> ('x, 'm) CallExpr_scheme \<Rightarrow> 'x ExpressionEnv_scheme
     \<Rightarrow> (error + eval option) \<times> 'x ExpressionEnv_scheme" where
  "builtinDate_eval L b env =
     (case arg1 b env of
        (Inl err, env1) \<Rightarrow> (Inl err, env1)
      | (Inr None, env1) \<Rightarrow> (Inr None, env1)
      | (Inr (Some date), env1) \<Rightarrow>
          (case evalToDate L date of
             None \<Rightarrow> (Inr None, env1)
           | Some d \<Rightarrow> (Inr (Some (EvalTemporal d)), env1)))"

definition builtinDayOfMonth_eval ::
  "lib \<Rightarrow> ('x, 'm) CallExpr_scheme \<Rightarrow> 'x ExpressionEnv_scheme
     \<Rightarrow> (error + eval option) \<times> 'x ExpressionEnv_scheme" where
  "builtinDayOfMonth_eval L b env =
     (case arg1 b env of
        (Inl err, env1) \<Rightarrow> (Inl err, env1)
      | (Inr None, env1) \<Rightarrow> (Inr None, env1)
      | (Inr (Some date), env1) \<Rightarrow>
          (case evalToDate L date of
             None \<Rightarrow> (Inr None, env1)
           | Some d \<Rightarrow> (Inr (Some (newEvalInt64 (int (d_day (dt_Date (tmp_dt d)))))), env1)))"

definition builtinDayOfWeek_eval ::
  "lib \<Rightarrow> ('x, 'm) CallExpr_scheme \<Rightarrow> 'x ExpressionEnv_scheme
     \<Rightarrow> (error + eval option) \<times> 'x ExpressionEnv_scheme" where
  "builtinDayOfWeek_eval L b env =
     (case arg1 b env of
        (Inl err, env1) \<Rightarrow> (Inl err, env1)
      | (Inr None, env1) \<Rightarrow> (Inr None, env1)
      | (Inr (Some date), env1) \<Rightarrow>
          (case evalToDate L date of
             None \<Rightarrow> (Inr None, env1)
           | Some d \<Rightarrow>
               if isZero d then (Inr None, env1)
               else (Inr (Some (newEvalInt64
                       (time_Weekday L (Date_ToStdTime L (dt_Date (tmp_dt d)) (Local L)) + 1))),
                     env1)))"

definition builtinDayOfYear_eval ::
  "lib \<Rightarrow> ('x, 'm) CallExpr_scheme \<Rightarrow> 'x ExpressionEnv_scheme
     \<Rightarrow> (error + eval option) \<times> 'x ExpressionEnv_scheme" where
  "builtinDayOfYear_eval L b env =
     (case arg1 b env of
        (Inl err, env1) \<Rightarrow> (Inl err, env1)
      | (Inr None, env1) \<Rightarrow> (Inr None, env1)
      | (Inr (Some date), env1) \<Rightarrow>
          (case evalToDate L date of
             None \<Rightarrow> (Inr None, env1)
           | Some d \<Rightarrow>
               if isZero d then (Inr None, env1)
               else (Inr (Some (newEvalInt64
                       (time_YearDay L (Date_ToStdTime L (dt_Date (tmp_dt d)) (Local L))))),
                     env1)))"

definition builtinMonth_eval ::
  "lib \<Rightarrow> ('x, 'm) CallExpr_scheme \<Rightarrow> 'x ExpressionEnv_scheme
     \<Rightarrow> (error + eval option) \<times> 'x ExpressionEnv_scheme" where
  "builtinMonth_eval L b env =
     (case arg1 b env of
        (Inl err, env1) \<Rightarrow> (Inl err, env1)
      | (Inr None, env1) \<Rightarrow> (Inr None, env1)
      | (Inr (Some date), env1) \<Rightarrow>
          (case evalToDate L date of
             None \<Rightarrow> (Inr None, env1)
           | Some d \<Rightarrow> (Inr (Some (newEvalInt64 (int (d_month (dt_Date (tmp_dt d)))))), env1)))"

definition builtinQuarter_eval ::
  "lib \<Rightarrow> ('x, 'm) CallExpr_scheme \<Rightarrow> 'x ExpressionEnv_scheme
     \<Rightarrow> (error + eval option) \<times> 'x ExpressionEnv_scheme" where
  "builtinQuarter_eval L b env =
     (case arg1 b env of
        (Inl err, env1) \<Rightarrow> (Inl err, env1)
      | (Inr None, env1) \<Rightarrow> (Inr None, env1)
      | (Inr (Some date), env1) \<Rightarrow>
          (case evalToDate L date of
             None \<Rightarrow> (Inr None, env1)
           | Some d \<Rightarrow> (Inr (Some (newEvalInt64 (Date_Quarter (dt_Date (tmp_dt d))))), env1)))"

definition builtinYear_eval ::
  "lib \<Rightarrow> ('x, 'm) CallExpr_scheme \<Rightarrow> 'x ExpressionEnv_scheme
     \<Rightarrow> (error + eval option) \<times> 'x ExpressionEnv_scheme" where
  "builtinYear_eval L b env =
     (case arg1 b env of
        (Inl err, env1) \<Rightarrow> (Inl err, env1)
      | (Inr None, env1) \<Rightarrow> (Inr None, env1)
      | (Inr (Some date), env1) \<Rightarrow>
          (case evalToDate L date of
             None \<Rightarrow> (Inr None, env1)
           | Some d \<Rightarrow> (Inr (Some (newEvalInt64 (int (d_year (dt_Date (tmp_dt d)))))), env1)))"

definition builtinWeek_eval ::
  "lib \<Rightarrow> ('x, 'm) CallExpr_scheme \<Rightarrow> 'x ExpressionEnv_scheme
     \<Rightarrow> (error + eval option) \<times> 'x ExpressionEnv_scheme" where
  "builtinWeek_eval L b env =
     (case arg1 b env of
        (Inl err, env1) \<Rightarrow> (Inl err, env1)
      | (Inr None, env1) \<Rightarrow> (Inr None, env1)
      | (Inr (Some date), env1) \<Rightarrow>
          (case evalToDate L date of
             None \<Rightarrow> (Inr None, env1)
           | Some d \<Rightarrow>
               if isZero d then (Inr None, env1)
               else if length (Arguments b) = 2
               then (case evalArg b 1 env1 of
                       (Inl err, env2) \<Rightarrow> (Inl err, env2)
                     | (Inr None, env2) \<Rightarrow> (Inr None, env2)
                     | (Inr (Some m), env2) \<Rightarrow>
                         (Inr (Some (newEvalInt64
                            (Date_Week L (dt_Date (tmp_dt d)) (evalToInt64 L m)))), env2))
               else (Inr (Some (newEvalInt64 (Date_Week L (dt_Date (tmp_dt d)) 0))), env1)))"

definition builtinWeekDay_eval ::
  "lib \<Rightarrow> ('x, 'm) CallExpr_scheme \<Rightarrow> 'x ExpressionEnv_scheme
     \<Rightarrow> (error + eval option) \<times> 'x ExpressionEnv_scheme" where
  "builtinWeekDay_eval L b env =
     (case arg1 b env of
        (Inl err, env1) \<Rightarrow> (Inl err, env1)
      | (Inr None, env1) \<Rightarrow> (Inr None, env1)
      | (Inr (Some date), env1) \<Rightarrow>
          (case evalToDate L date of
             None \<Rightarrow> (Inr None, env1)
           | Some d \<Rightarrow>
               if isZero d then (Inr None, env1)
               else (Inr (Some (newEvalInt64
                       ((Date_Weekday L (dt_Date (tmp_dt d)) + 6) mod 7))), env1)))"

definition builtinWeekOfYear_eval ::
  "lib \<Rightarrow> ('x, 'm) CallExpr_scheme \<Rightarrow> 'x ExpressionEnv_scheme
     \<Rightarrow> (error + eval option) \<times> 'x ExpressionEnv_scheme" where
  "builtinWeekOfYear_eval L b env =
     (case arg1 b env of
        (Inl err, env1) \<Rightarrow> (Inl err, env1)
      | (Inr None, env1) \<Rightarrow> (Inr None, env1)
      | (Inr (Some date), env1) \<Rightarrow>
          (case evalToDate L date of
             None \<Rightarrow> (Inr None, env1)
           | Some d \<Rightarrow>
               if isZero d then (Inr None, env1)
               else (Inr (Some (newEvalInt64 (snd (Date_ISOWeek L (dt_Date (tmp_dt d)))))),
                     env1)))"

definition builtinYearWeek_eval ::
  "lib \<Rightarrow> ('x, 'm) CallExpr_scheme \<Rightarrow> 'x ExpressionEnv_scheme
     \<Rightarrow> (error + eval option) \<times> 'x ExpressionEnv_scheme" where
  "builtinYearWeek_eval L b env =
     (case arg1 b env of
        (Inl err, env1) \<Rightarrow> (Inl err, env1)
      | (Inr None, env1) \<Rightarrow> (Inr None, env1)
      | (Inr (Some date), env1) \<Rightarrow>
          (case evalToDate L date of
             None \<Rightarrow> (Inr None, env1)
           | Some d \<Rightarrow>
               if isZero d then (Inr None, env1)
               else if length (Arguments b) = 2
               then (case evalArg b 1 env1 of
                       (Inl err, env2) \<Rightarrow> (Inl err, env2)
                     | (Inr None, env2) \<Rightarrow> (Inr None, env2)
                     | (Inr (Some m), env2) \<Rightarrow>
                         (Inr (Some (newEvalInt64
                            (Date_YearWeek L (dt_Date (tmp_dt d)) (evalToInt64 L m)))), env2))
               else (Inr (Some (newEvalInt64 (Date_YearWeek L (dt_Date (tmp_dt d)) 0))),
                     env1)))"

section \<open>FROM_UNIXTIME\<close>

definition maxUnixtime :: int where
  "maxUnixtime = 32536771200"

text \<open>
  The switch on the argument's kind: the seconds, the nanoseconds and the precision. The
  source's default case, for a kind of value outside the runtime value model, does what
  the string case does for a string that is not a literal. For a hexadecimal or bit
  literal the source drops the flag of \<^verbatim>\<open>toNumericHex\<close> and reads the field \<^verbatim>\<open>u\<close> of the
  pointer it returns: when the conversion fails the pointer is nil and the evaluation
  panics.
\<close>

definition fromUnixtime_parts :: "lib \<Rightarrow> eval \<Rightarrow> error + int \<times> int \<times> int" where
  "fromUnixtime_parts L ts =
     (let of_float = (\<lambda>f. case Modf L f of (sf, ff) \<Rightarrow>
                         (int64_of_float64 L sf, int64_of_float64 L (f64_mul L ff f64_1e9), 6));
          of_decimal = (\<lambda>dec p.
                         (let sd = (if dec < 0 then - of_int \<lfloor>- dec\<rfloor> else of_int \<lfloor>dec\<rfloor>);
                              fd = dec - sd
                          in (decimal_Int64 L sd, decimal_Int64 L (fd * 1000000000), p)))
      in case ts of
           EvalInt64 i \<Rightarrow> Inr (i, 0, 0)
         | EvalUint64 u \<Rightarrow> Inr (int64_of_uint64 u, 0, 0)
         | EvalFloat f \<Rightarrow> Inr (of_float f)
         | EvalDecimal dec len \<Rightarrow> Inr (of_decimal dec len)
         | EvalTemporal e \<Rightarrow>
             if tmp_prec e = 0 then Inr (temporal_toInt64 L e, 0, 0)
             else Inr (of_decimal (temporal_toDecimal L e) (int (tmp_prec e)))
         | EvalBytes e \<Rightarrow>
             if isHexOrBitLiteral e
             then (case toNumericHex L e of
                     None \<Rightarrow> Inl NilPointerDereference
                   | Some u \<Rightarrow> Inr (int64_of_uint64 u, 0, 0))
             else Inr (of_float (evalToFloat L ts)))"

definition builtinFromUnixtime_eval ::
  "lib \<Rightarrow> ('x, 'm) builtinFromUnixtime_scheme \<Rightarrow> 'x ExpressionEnv_scheme
     \<Rightarrow> (error + eval option) \<times> 'x ExpressionEnv_scheme" where
  "builtinFromUnixtime_eval L b env =
     (case arg1 b env of
        (Inl err, env1) \<Rightarrow> (Inl err, env1)
      | (Inr None, env1) \<Rightarrow> (Inr None, env1)
      | (Inr (Some ts), env1) \<Rightarrow>
          (case fromUnixtime_parts L ts of
             Inl err \<Rightarrow> (Inl err, env1)
           | Inr (sec, nano, p) \<Rightarrow>
             if sec < 0 \<or> sec \<ge> maxUnixtime then (Inr None, env1)
             else (let t0 = time_Unix (Local L) sec nano;
                       t = (case currentTimezone env1 of Some z \<Rightarrow> In t0 z | None \<Rightarrow> t0);
                       d = newEvalDateTime (NewDateTimeFromStd t) p
                   in if length (Arguments b) = 1 then (Inr (Some (EvalTemporal d)), env1)
                      else (case evalArg b 1 env1 of
                              (Inl err, env2) \<Rightarrow> (Inl err, env2)
                            | (Inr format, env2) \<Rightarrow>
                                (let f = evalToBinary L format
                                 in case datetime_Format L (bytes f) (tmp_dt d) (tmp_prec d) of
                                      Inl err \<Rightarrow> (Inl err, env2)
                                    | Inr txt \<Rightarrow>
                                        (Inr (Some (newEvalText txt
                                           (defaultCoercionCollation (fu_collate b)))), env2))))))"

section \<open>MAKEDATE\<close>

definition builtinMakedate_eval ::
  "lib \<Rightarrow> ('x, 'm) CallExpr_scheme \<Rightarrow> 'x ExpressionEnv_scheme
     \<Rightarrow> (error + eval option) \<times> 'x ExpressionEnv_scheme" where
  "builtinMakedate_eval L b env =
     (case evalArg b 1 env of
        (Inl err, env1) \<Rightarrow> (Inl err, env1)
      | (Inr None, env1) \<Rightarrow> (Inr None, env1)
      | (Inr (Some yearDay), env1) \<Rightarrow>
          (case evalArg b 0 env1 of
             (Inl err, env2) \<Rightarrow> (Inl err, env2)
           | (Inr None, env2) \<Rightarrow> (Inr None, env2)
           | (Inr (Some yr), env2) \<Rightarrow>
               (let y = evalToInt64 L yr;
                    yd = evalToInt64 L yearDay;
                    t = yearDayToTime (Local L) y yd
                in if IsZero t then (Inr None, env2)
                   else (Inr (Some (EvalTemporal
                           (newEvalDate (dt_Date (NewDateTimeFromStd t))))), env2))))"

definition builtinMakedate_typeof ::
  "('x, 'm) CallExpr_scheme \<Rightarrow> 'x ExpressionEnv_scheme \<Rightarrow> querypb_Field list
     \<Rightarrow> error + sqltypes_Type \<times> typeFlag" where
  "builtinMakedate_typeof b env flds =
     (case typeofArg b 0 env flds of
        Inl err \<Rightarrow> Inl err
      | Inr (_, f1) \<Rightarrow>
          (case typeofArg b 1 env flds of
             Inl err \<Rightarrow> Inl err
           | Inr (_, f2) \<Rightarrow> Inr (Date, insert flagNullable (f1 \<union> f2))))"

definition builtinMakedate_compile ::
  "('x, 'm) CallExpr_scheme \<Rightarrow> compiler \<Rightarrow> (error + ctype) \<times> compiler" where
  "builtinMakedate_compile call c =
     (case compileArg call 1 c of
        (Inl err, c1) \<Rightarrow> (Inl err, c1)
      | (Inr yearDay, c1) \<Rightarrow>
          (case compileNullCheck1 yearDay c1 of (skip1, c2) \<Rightarrow>
             (case compileArg call 0 c2 of
                (Inl err, c3) \<Rightarrow> (Inl err, c3)
              | (Inr yr, c3) \<Rightarrow>
                  (case compileNullCheck1r yr c3 of (skip2, c4) \<Rightarrow>
                     (let c5 = (if Type yearDay = Int64 then c4 else emit (Convert_xi 2) c4);
                          c6 = (if Type yr = Int64 then c5 else emit (Convert_xi 1) c5);
                          c7 = emit Fn_MAKEDATE c6;
                          c8 = jumpDestination [skip1, skip2] c7
                      in (Inr \<lparr>Type = Date,
                                Flag = insert flagNullable (Flag yr \<union> Flag yearDay),
                                Col = collationBinary\<rparr>, c8))))))"

section \<open>MAKETIME\<close>

text \<open>
  The switch on the hour's kind. An unsigned hour above \<open>MaxInt64\<close> is read as
  \<open>MaxInt64\<close>; a hexadecimal or bit literal is read as an unsigned integer when
  \<^verbatim>\<open>toNumericHex\<close> succeeds and leaves the hour 0 when it fails.
\<close>

definition maketime_hour :: "lib \<Rightarrow> eval \<Rightarrow> int" where
  "maketime_hour L hr =
     (case hr of
        EvalInt64 i \<Rightarrow> i
      | EvalUint64 u \<Rightarrow> if int u > MaxInt64 then MaxInt64 else int64_of_uint64 u
      | EvalBytes e \<Rightarrow>
          if isHexOrBitLiteral e
          then (case toNumericHex L e of
                  Some hex \<Rightarrow> if int hex > MaxInt64 then MaxInt64 else int64_of_uint64 hex
                | None \<Rightarrow> 0)
          else evalToInt64 L hr
      | _ \<Rightarrow> evalToInt64 L hr)"

definition builtinMaketime_eval ::
  "lib \<Rightarrow> ('x, 'm) CallExpr_scheme \<Rightarrow> 'x ExpressionEnv_scheme
     \<Rightarrow> (error + eval option) \<times> 'x ExpressionEnv_scheme" where
  "builtinMaketime_eval L b env =
     (case evalArg b 0 env of
        (Inl err, env1) \<Rightarrow> (Inl err, env1)
      | (Inr None, env1) \<Rightarrow> (Inr None, env1)
      | (Inr (Some hr), env1) \<Rightarrow>
     (case evalArg b 1 env1 of
        (Inl err, env2) \<Rightarrow> (Inl err, env2)
      | (Inr None, env2) \<Rightarrow> (Inr None, env2)
      | (Inr (Some mn), env2) \<Rightarrow>
     (case evalArg b 2 env2 of
        (Inl err, env3) \<Rightarrow> (Inl err, env3)
      | (Inr None, env3) \<Rightarrow> (Inr None, env3)
      | (Inr (Some sc), env3) \<Rightarrow>
          (let h = maketime_hour L hr;
               m = evalToInt64 L mn;
               s = evalToNumeric L sc False
           in case s of
                EvalInt64 si \<Rightarrow>
                  (case makeTime_i h m si of (v, ok) \<Rightarrow>
                     if \<not> ok then (Inr None, env3)
                     else (case ParseTimeInt64 L v of (t, ok') \<Rightarrow>
                             if \<not> ok' then (Inr None, env3)
                             else (Inr (Some (EvalTemporal (newEvalTime t 0))), env3)))
              | EvalUint64 su \<Rightarrow>
                  (case makeTime_i h m (int64_of_uint64 su) of (v, ok) \<Rightarrow>
                     if \<not> ok then (Inr None, env3)
                     else (case ParseTimeInt64 L v of (t, ok') \<Rightarrow>
                             if \<not> ok' then (Inr None, env3)
                             else (Inr (Some (EvalTemporal (newEvalTime t 0))), env3)))
              | EvalDecimal sd len \<Rightarrow>
                  (case makeTime_d h m sd of (v, ok) \<Rightarrow>
                     if \<not> ok then (Inr None, env3)
                     else (case ParseTimeDecimal L v len (- 1) of (t, l, ok') \<Rightarrow>
                             if \<not> ok' then (Inr None, env3)
                             else (Inr (Some (EvalTemporal (newEvalTime t l))), env3)))
              | EvalFloat sf \<Rightarrow>
                  (case makeTime_f L h m sf of (v, ok) \<Rightarrow>
                     if \<not> ok then (Inr None, env3)
                     else (case ParseTimeFloat L v (- 1) of (t, l, ok') \<Rightarrow>
                             if \<not> ok' then (Inr None, env3)
                             else (Inr (Some (EvalTemporal (newEvalTime t l))), env3)))
              | _ \<Rightarrow> (Inr None, env3)))))"

section \<open>DATE_ADD and DATE_SUB\<close>

definition evalToInterval ::
  "lib \<Rightarrow> eval \<Rightarrow> IntervalType \<Rightarrow> bool \<Rightarrow> datetime_Interval option" where
  "evalToInterval L itv u negate =
     (case itv of
        EvalBytes e \<Rightarrow> ParseInterval L (bytes e) u negate
      | EvalFloat f \<Rightarrow> ParseIntervalFloat L f u negate
      | EvalDecimal dec len \<Rightarrow> ParseIntervalDecimal L dec len u negate
      | _ \<Rightarrow> ParseIntervalInt64 L (numeric_toInt64 L (evalToNumeric L itv False)) u negate)"

definition builtinDateMath_eval ::
  "lib \<Rightarrow> ('x, 'm) builtinDateMath_scheme \<Rightarrow> 'x ExpressionEnv_scheme
     \<Rightarrow> (error + eval option) \<times> 'x ExpressionEnv_scheme" where
  "builtinDateMath_eval L call env =
     (case evalArg call 0 env of
        (Inl err, env1) \<Rightarrow> (Inl err, env1)
      | (Inr None, env1) \<Rightarrow> (Inr None, env1)
      | (Inr (Some date), env1) \<Rightarrow>
          (case evalArg call 1 env1 of
             (Inl err, env2) \<Rightarrow> (Inl err, env2)
           | (Inr None, env2) \<Rightarrow> (Inr None, env2)
           | (Inr (Some itv), env2) \<Rightarrow>
               (case evalToInterval L itv (dm_unit call) (dm_sub call) of
                  None \<Rightarrow> (Inr None, env2)
                | Some interval \<Rightarrow>
                    (case date of
                       EvalTemporal tmp \<Rightarrow> (Inr (addInterval L tmp interval zeroCollation), env2)
                     | _ \<Rightarrow>
                         (case evalToTemporal L date of
                            Some tmp \<Rightarrow>
                              (Inr (addInterval L tmp interval
                                      (defaultCoercionCollation (dm_collate call))), env2)
                          | None \<Rightarrow> (Inr None, env2))))))"

definition builtinDateMath_typeof ::
  "('x, 'm) builtinDateMath_scheme \<Rightarrow> 'x ExpressionEnv_scheme \<Rightarrow> querypb_Field list
     \<Rightarrow> error + sqltypes_Type \<times> typeFlag" where
  "builtinDateMath_typeof call env flds =
     (case typeofArg call 0 env flds of
        Inl err \<Rightarrow> Inl err
      | Inr (tt, f) \<Rightarrow>
          if tt = Date \<and> \<not> HasTimeParts (dm_unit call) then Inr (Date, insert flagNullable f)
          else if tt = Time \<and> \<not> HasDateParts (dm_unit call)
          then Inr (Time, insert flagNullable f)
          else if tt = Datetime \<or> tt = Timestamp
                  \<or> (tt = Date \<and> HasTimeParts (dm_unit call))
                  \<or> (tt = Time \<and> HasDateParts (dm_unit call))
          then Inr (Datetime, insert flagNullable f)
          else Inr (Char_t, insert flagNullable f))"

definition builtinDateMath_compile ::
  "('x, 'm) builtinDateMath_scheme \<Rightarrow> compiler \<Rightarrow> (error + ctype) \<times> compiler" where
  "builtinDateMath_compile call c =
     (case compileArg call 0 c of
        (Inl err, c1) \<Rightarrow> (Inl err, c1)
      | (Inr date, c1) \<Rightarrow>
          (case compileArg call 1 c1 of
             (Inl err, c2) \<Rightarrow> (Inl err, c2)
           | (Inr _, c2) \<Rightarrow>
               (let ret = \<lparr>Type = Null_type, Flag = insert flagNullable (Flag date),
                           Col = collationBinary\<rparr>
                in if Type date = Date \<and> \<not> HasTimeParts (dm_unit call)
                   then (Inr (ret\<lparr>Type := Date\<rparr>),
                         emit (Fn_DATEADD_D (dm_unit call) (dm_sub call)) c2)
                   else if Type date = Time \<and> \<not> HasDateParts (dm_unit call)
                   then (Inr (ret\<lparr>Type := Time\<rparr>),
                         emit (Fn_DATEADD_D (dm_unit call) (dm_sub call)) c2)
                   else if Type date = Datetime \<or> Type date = Timestamp
                           \<or> (Type date = Date \<and> HasTimeParts (dm_unit call))
                           \<or> (Type date = Time \<and> HasDateParts (dm_unit call))
                   then (Inr (ret\<lparr>Type := Datetime\<rparr>),
                         emit (Fn_DATEADD_D (dm_unit call) (dm_sub call)) c2)
                   else (let col = defaultCoercionCollation (cfg_Collation c2)
                         in (Inr (ret\<lparr>Type := VarChar, Col := col\<rparr>),
                             emit (Fn_DATEADD_s (dm_unit call) (dm_sub call) col) c2)))))"

section \<open>Dispatch over the clock-reading calls\<close>

text \<open>
  The call nodes that read the clock, and their evaluation through the interface. NOW and
  CURRENT_TIME are \<open>builtinNow\<close> without and with \<open>onlyTime\<close>; UNIX_TIMESTAMP reads the clock
  when it has no argument.
\<close>

datatype 'x clockCall =
  CallNow "'x builtinNow"
  | CallSysdate "'x builtinSysdate"
  | CallCurdate "'x CallExpr"
  | CallUtcDate "'x CallExpr"
  | CallUnixTimestamp "'x CallExpr"

fun clock_eval ::
  "lib \<Rightarrow> time_Time \<Rightarrow> 'x clockCall \<Rightarrow> 'x ExpressionEnv_scheme
     \<Rightarrow> (error + eval option) \<times> 'x ExpressionEnv_scheme" where
  "clock_eval L SystemTime (CallNow call) env = builtinNow_eval L call env"
| "clock_eval L SystemTime (CallSysdate call) env = builtinSysdate_eval L SystemTime call env"
| "clock_eval L SystemTime (CallCurdate call) env = builtinCurdate_eval L call env"
| "clock_eval L SystemTime (CallUtcDate call) env = builtinUtcDate_eval L call env"
| "clock_eval L SystemTime (CallUnixTimestamp call) env = builtinUnixTimestamp_eval L call env"

fun clock_typeof ::
  "'x clockCall \<Rightarrow> 'x ExpressionEnv_scheme \<Rightarrow> querypb_Field list
     \<Rightarrow> error + sqltypes_Type \<times> typeFlag" where
  "clock_typeof (CallNow call) env flds = Inr (builtinNow_typeof call)"
| "clock_typeof (CallSysdate call) env flds = Inr (builtinSysdate_typeof call)"
| "clock_typeof (CallCurdate call) env flds = Inr (builtinCurdate_typeof call)"
| "clock_typeof (CallUtcDate call) env flds = Inr (builtinUtcDate_typeof call)"
| "clock_typeof (CallUnixTimestamp call) env flds = builtinUnixTimestamp_typeof call env flds"

fun readsClock :: "'x clockCall \<Rightarrow> bool" where
  "readsClock (CallUnixTimestamp call) = (length (Arguments call) = 0)"
| "readsClock _ = True"

fun isSysdate :: "'x clockCall \<Rightarrow> bool" where
  "isSysdate (CallSysdate call) = True"
| "isSysdate _ = False"

section \<open>Sample inputs\<close>

text \<open>
  An instance of the library for evaluating the builtins on concrete inputs: integers
  convert to themselves, a temporal value converts to itself, text does not parse as a
  temporal value, a hexadecimal literal of at most 8 bytes reads as the big-endian number
  of its bytes and a longer one does not convert, a decimal number \<open>hhmmss.f\<close> parses as a
  time, and a datetime is printed with decimal digits. The local zone is UTC.
\<close>

definition digit :: "nat \<Rightarrow> char" where
  "digit n = ''0123456789'' ! (n mod 10)"

definition digits2 :: "nat \<Rightarrow> string" where
  "digits2 n = [digit (n div 10), digit n]"

definition sample_date :: "datetime_DateTime \<Rightarrow> string" where
  "sample_date d =
     digits2 (d_year (dt_Date d) div 100) @ digits2 (d_year (dt_Date d)) @ ''-''
     @ digits2 (d_month (dt_Date d)) @ ''-'' @ digits2 (d_day (dt_Date d))"

definition sample_clock :: "datetime_DateTime \<Rightarrow> string" where
  "sample_clock d =
     digits2 (t_hour (dt_Time d)) @ '':'' @ digits2 (t_minute (dt_Time d)) @ '':''
     @ digits2 (t_second (dt_Time d))"

fun sample_Strftime :: "Strftime \<Rightarrow> datetime_DateTime \<Rightarrow> nat \<Rightarrow> string" where
  "sample_Strftime Time_hh_mm_ss d p = sample_clock d"
| "sample_Strftime Date_YYYY_MM_DD d p = sample_date d"
| "sample_Strftime DateTime_YYYY_MM_DD_hh_mm_ss d p = sample_date d @ '' '' @ sample_clock d"

definition sample_toInt64 :: "eval \<Rightarrow> int" where
  "sample_toInt64 e =
     (case e of EvalInt64 i \<Rightarrow> i | EvalUint64 u \<Rightarrow> int64_of_uint64 u | _ \<Rightarrow> 0)"

definition sample_toTemporal :: "eval \<Rightarrow> evalTemporal option" where
  "sample_toTemporal e = (case e of EvalTemporal t \<Rightarrow> Some t | _ \<Rightarrow> None)"

definition sample_toBinary :: "eval option \<Rightarrow> evalBytes" where
  "sample_toBinary e =
     (case e of
        Some (EvalBytes b) \<Rightarrow> b
      | _ \<Rightarrow> \<lparr>bytes_tt = VarBinary, bytes_col = collationBinary, bytes = [],
               isHexLiteral = False, isBitLiteral = False\<rparr>)"

definition sample_ParseTimeInt64 :: "int \<Rightarrow> datetime_Time \<times> bool" where
  "sample_ParseTimeInt64 v =
     (\<lparr>t_hour = nat (\<bar>v\<bar> div 10000), t_minute = nat (\<bar>v\<bar> div 100 mod 100),
       t_second = nat (\<bar>v\<bar> mod 100), t_nanosecond = 0, t_neg = (v < 0)\<rparr>, True)"

definition sample_ParseTimeDecimal :: "Decimal \<Rightarrow> int \<Rightarrow> int \<Rightarrow> datetime_Time \<times> int \<times> bool" where
  "sample_ParseTimeDecimal v len p =
     (let w = \<lfloor>\<bar>v\<bar>\<rfloor>
      in (\<lparr>t_hour = nat (w div 10000), t_minute = nat (w div 100 mod 100),
           t_second = nat (w mod 100),
           t_nanosecond = nat \<lfloor>(\<bar>v\<bar> - of_int w) * 1000000000\<rfloor>, t_neg = (v < 0)\<rparr>,
          len, True))"

definition sample_toNumericHex :: "evalBytes \<Rightarrow> nat option" where
  "sample_toNumericHex e =
     (if length (bytes e) > 8 then None
      else Some (foldl (\<lambda>a c. a * 256 + of_char c) 0 (bytes e)))"

definition sample_ToStdTime :: "datetime_DateTime \<Rightarrow> Location \<Rightarrow> time_Time" where
  "sample_ToStdTime d z =
     time_Date (int (d_year (dt_Date d))) (int (d_month (dt_Date d))) (int (d_day (dt_Date d)))
       (int (t_hour (dt_Time d))) (int (t_minute (dt_Time d))) (int (t_second (dt_Time d)))
       (int (t_nanosecond (dt_Time d))) z"

definition sampleLib :: lib where
  "sampleLib =
     \<lparr>Local = UTC,
      Modf = (\<lambda>f. (f, 0)),
      int64_of_float64 = (\<lambda>f. 0),
      float64_of_int64 = (\<lambda>i. 0),
      f64_mul = (\<lambda>a b. 0),
      f64_add = (\<lambda>a b. 0),
      f64_neg = (\<lambda>a. a),
      decimal_Int64 = (\<lambda>d. \<lfloor>d\<rfloor>),
      evalToInt64 = sample_toInt64,
      evalToNumeric = (\<lambda>e b. e),
      numeric_toInt64 = sample_toInt64,
      evalToFloat = (\<lambda>e. 0),
      evalToDate = sample_toTemporal,
      evalToDateTime = (\<lambda>e p. sample_toTemporal e),
      evalToTemporal = sample_toTemporal,
      evalToBinary = sample_toBinary,
      toNumericHex = sample_toNumericHex,
      temporal_toInt64 = (\<lambda>t. 0),
      temporal_toDecimal = (\<lambda>t. 0),
      toDateTime = (\<lambda>t p. t\<lparr>tmp_t := Datetime, tmp_prec := nat p\<rparr>),
      addInterval = (\<lambda>t i c. Some (EvalTemporal t)),
      Strftime_Format = sample_Strftime,
      DateTime_Format = (\<lambda>d p. sample_date d @ '' '' @ sample_clock d),
      datetime_Format = (\<lambda>f d p. Inr (sample_date d @ '' '' @ sample_clock d)),
      ParseTimeInt64 = sample_ParseTimeInt64,
      ParseTimeDecimal = sample_ParseTimeDecimal,
      ParseTimeFloat = (\<lambda>f p. (zeroClock, 0, False)),
      ParseInterval = (\<lambda>s u n. None),
      ParseIntervalFloat = (\<lambda>f u n. None),
      ParseIntervalDecimal = (\<lambda>d l u n. None),
      ParseIntervalInt64 =
        (\<lambda>i u n. Some \<lparr>itv_unit = u, itv_parts = [i], itv_negate = n\<rparr>),
      DateTime_ToStdTime = sample_ToStdTime,
      Date_ToStdTime = (\<lambda>d z. sample_ToStdTime \<lparr>dt_Date = d, dt_Time = zeroClock\<rparr> z),
      time_Weekday =
        (\<lambda>t. ((unixSec t + zoneOffset (zone t) (unixSec t)) div 86400 + 4) mod 7),
      time_YearDay = (\<lambda>t. 1),
      Date_Weekday = (\<lambda>d. 0),
      Date_Week = (\<lambda>d m. 0),
      Date_ISOWeek = (\<lambda>d. (0, 0)),
      Date_YearWeek = (\<lambda>d m. 0)\<rparr>"

text \<open>
  Sample arguments: an expression that evaluates to a given result and compiles to one
  instruction; one that fails; and one that also records, in the extension of the
  environment, that it was evaluated.
\<close>

definition constExpr :: "eval option \<Rightarrow> ctype \<Rightarrow> 'x Expr" where
  "constExpr v ct =
     \<lparr>expr_eval = (\<lambda>env. (Inr v, env)),
      expr_typeof = (\<lambda>env flds. (Type ct, Flag ct)),
      expr_compile = (\<lambda>c. (Inr ct, emit (Op 0) c))\<rparr>"

definition failExpr :: "error \<Rightarrow> 'x Expr" where
  "failExpr err =
     \<lparr>expr_eval = (\<lambda>env. (Inl err, env)),
      expr_typeof = (\<lambda>env flds. (Null_type, {})),
      expr_compile = (\<lambda>c. (Inl err, c))\<rparr>"

definition tracedExpr :: "nat \<Rightarrow> eval option \<Rightarrow> ctype \<Rightarrow> (nat list) Expr" where
  "tracedExpr tag v ct =
     \<lparr>expr_eval = (\<lambda>env. (Inr v, env\<lparr>ExpressionEnv.more := ExpressionEnv.more env @ [tag]\<rparr>)),
      expr_typeof = (\<lambda>env flds. (Type ct, Flag ct)),
      expr_compile = (\<lambda>c. (Inr ct, emit (Op tag) c))\<rparr>"

definition intType :: ctype where
  "intType = \<lparr>Type = Int64, Flag = {}, Col = collationNumeric\<rparr>"

definition nullableIntType :: ctype where
  "nullableIntType = \<lparr>Type = Int64, Flag = {flagNullable}, Col = collationNumeric\<rparr>"

definition dateType :: ctype where
  "dateType = \<lparr>Type = Date, Flag = {}, Col = collationBinary\<rparr>"

definition textType :: ctype where
  "textType = \<lparr>Type = VarChar, Flag = {}, Col = defaultCoercionCollation 255\<rparr>"

definition mkCall :: "'x Expr list \<Rightarrow> 'x CallExpr" where
  "mkCall args = \<lparr>Arguments = args, Method = []\<rparr>"

definition intArgs :: "int list \<Rightarrow> 'x Expr list" where
  "intArgs xs = map (\<lambda>i. constExpr (Some (EvalInt64 i)) intType) xs"

definition sampleNow :: "'x builtinNow" where
  "sampleNow = \<lparr>Arguments = [], Method = [], utc = False, onlyTime = False, now_prec = 0\<rparr>"

definition sampleSysdate :: "'x builtinSysdate" where
  "sampleSysdate = \<lparr>Arguments = [], Method = [], sysdate_prec = 0\<rparr>"

definition sampleText :: eval where
  "sampleText = newEvalText ''foo'' (defaultCoercionCollation 255)"

definition sampleHex :: eval where
  "sampleHex =
     EvalBytes \<lparr>bytes_tt = VarBinary, bytes_col = collationBinary, bytes = [CHR 0x10],
                isHexLiteral = True, isBitLiteral = False\<rparr>"

text \<open>The literal \<^verbatim>\<open>0x010000000000000000\<close>: nine bytes, the number 2 ^ 64.\<close>

definition sampleLongHex :: eval where
  "sampleLongHex =
     EvalBytes \<lparr>bytes_tt = VarBinary, bytes_col = collationBinary,
                bytes = [CHR 0x01, CHR 0x00, CHR 0x00, CHR 0x00, CHR 0x00, CHR 0x00, CHR 0x00,
                         CHR 0x00, CHR 0x00],
                isHexLiteral = True, isBitLiteral = False\<rparr>"

definition sampleFromUnixtime :: "'x Expr list \<Rightarrow> 'x builtinFromUnixtime" where
  "sampleFromUnixtime args = \<lparr>Arguments = args, Method = [], fu_collate = 255\<rparr>"

definition sampleDateMath :: "IntervalType \<Rightarrow> 'x Expr list \<Rightarrow> 'x builtinDateMath" where
  "sampleDateMath u args =
     \<lparr>Arguments = args, Method = [], dm_sub = False, dm_unit = u, dm_collate = 255\<rparr>"

definition decimalType :: ctype where
  "decimalType = \<lparr>Type = Decimal, Flag = {}, Col = collationNumeric\<rparr>"

definition binaryType :: ctype where
  "binaryType = \<lparr>Type = VarBinary, Flag = {flagHex}, Col = collationBinary\<rparr>"

definition emptyCompiler :: compiler where
  "emptyCompiler = \<lparr>ins = [], jumps = [], cfg_Collation = 255\<rparr>"

definition epoch :: time_Time where
  "epoch = \<lparr>unixSec = 0, nsec = 0, zone = UTC\<rparr>"

definition sampleEnv :: ExpressionEnv where
  "sampleEnv = \<lparr>env_now = epoch, env_tz = Some UTC\<rparr>"

definition tracingEnv :: "(nat list) ExpressionEnv_scheme" where
  "tracingEnv = \<lparr>env_now = epoch, env_tz = Some UTC, \<dots> = []\<rparr>"

text \<open>
  The location America/Sao_Paulo around 2018: daylight saving time (UTC-2) until
  2018-02-18 02:00 UTC, standard time (UTC-3) until 2018-11-04 03:00 UTC, when the local
  clock goes from 2018-11-03 23:59:59 to 2018-11-04 01:00:00, and daylight saving time
  again after that.
\<close>

definition saoPaulo :: Location where
  "saoPaulo sec =
     (if sec < 1518919200 then (- 7200, alpha, 1518919200)
      else if sec < 1541300400 then (- 10800, 1518919200, 1541300400)
      else (- 7200, 1541300400, omega))"

definition saoPauloLib :: lib where
  "saoPauloLib = sampleLib\<lparr>Local := saoPaulo\<rparr>"

text \<open>The fractional-second precision of a result that is a temporal value.\<close>

definition resultPrec :: "(error + eval option) \<Rightarrow> nat option" where
  "resultPrec r = (case r of Inr (Some (EvalTemporal t)) \<Rightarrow> Some (tmp_prec t) | _ \<Rightarrow> None)"

section \<open>The calendar, the years of MAKEDATE and the clamping of MAKETIME\<close>

lemma clamp_cases:
  "clampHourMinute h m =
     (if h > 838 then (838, 59, False, True)
      else if h < - 838 then (838, 59, True, True)
      else (\<bar>h\<bar>, m, h < 0, False))"
  by (simp add: clampHourMinute_def Let_def)

lemma makeTime_i_invalid:
  "m < 0 \<or> m > 59 \<or> s < 0 \<or> s > 59 \<Longrightarrow> makeTime_i h m s = (0, False)"
  by (auto simp add: makeTime_i_def)

lemma makeTime_i_valid:
  "0 \<le> m \<Longrightarrow> m \<le> 59 \<Longrightarrow> 0 \<le> s \<Longrightarrow> s \<le> 59 \<Longrightarrow>
   makeTime_i h m s =
     (if h > 838 then (8385959, True)
      else if h < - 838 then (- 8385959, True)
      else if h < 0 then (- (- h * 10000 + m * 100 + s), True)
      else (h * 10000 + m * 100 + s, True))"
  by (simp add: makeTime_i_def clamp_cases Let_def)






lemma f64_consts: "f64_lt f64_59 f64_0 = False" "f64_ge f64_59 f64_60 = False"
   "f64_ge f64_60 f64_60" "\<not> f64_lt f64_0 f64_0"
  by code_simp+

lemma yoe_recover:
  fixes yoe :: int
  assumes "0 \<le> yoe" "yoe \<le> 399"
    and "doe = yoe * 365 + yoe div 4 - yoe div 100 + 306"
  shows "(doe - doe div 1460 + doe div 36524 - doe div 146096) div 365 = yoe"
proof -
  have lo: "yoe * 365 \<le> doe - doe div 1460 + doe div 36524 - doe div 146096"
    using assms by linarith
  have hi: "doe - doe div 1460 + doe div 36524 - doe div 146096 < yoe * 365 + 365"
    using assms by linarith
  define r where "r = doe - doe div 1460 + doe div 36524 - doe div 146096 - yoe * 365"
  have "doe - doe div 1460 + doe div 36524 - doe div 146096 = 365 * yoe + r" "0 \<le> r" "r < 365"
    using lo hi by (simp_all add: r_def)
  then show ?thesis
    by (simp add: int_div_pos_eq)
qed

lemma civilFromDays_era:
  assumes "0 \<le> doe" "doe < 146097"
  shows "civilFromDays (era * 146097 + doe - 719468) =
     (let yoe = (doe - doe div 1460 + doe div 36524 - doe div 146096) div 365;
          doy = doe - (365 * yoe + yoe div 4 - yoe div 100);
          mp = (5 * doy + 2) div 153;
          d = doy - (153 * mp + 2) div 5 + 1;
          m = (if mp < 10 then mp + 3 else mp - 9)
      in (if m \<le> 2 then yoe + era * 400 + 1 else yoe + era * 400, m, d))"
proof -
  have e: "(era * 146097 + doe) div 146097 = era"
    using assms by (simp add: int_div_pos_eq [of _ 146097 era doe] mult.commute)
  have z: "era * 146097 + doe - 719468 + 719468 = era * 146097 + doe" by simp
  show ?thesis
    unfolding civilFromDays_def z
    apply (subst Let_def)
    apply (subst Let_def)
    apply (subst Let_def)
    apply (simp only: e add_diff_cancel_left')
    done
qed

lemma jan1_roundtrip: "civilFromDays (daysFromCivil y 1 1) = (y, 1, 1)"
proof -
  define era where "era = (y - 1) div 400"
  define yoe where "yoe = y - 1 - era * 400"
  define doe where "doe = yoe * 365 + yoe div 4 - yoe div 100 + 306"
  have yoe_mod: "yoe = (y - 1) mod 400"
    by (simp add: yoe_def era_def minus_div_mult_eq_mod)
  have yr: "0 \<le> yoe" "yoe \<le> 399"
    by (simp_all add: yoe_mod)
  have dr: "0 \<le> doe" "doe < 146097"
    using yr unfolding doe_def by linarith+
  have c1: "(153 * (1 + 9) + 2) div 5 + 1 - 1 = (306::int)" by simp
  have d: "daysFromCivil y 1 1 = era * 146097 + doe - 719468"
    unfolding daysFromCivil_def Let_def doe_def yoe_def era_def
    by (simp only: c1 if_True if_False order_refl one_le_numeral not_less
          less_numeral_extra numeral_le_one_iff) simp
  have k: "(doe - doe div 1460 + doe div 36524 - doe div 146096) div 365 = yoe"
    using yr doe_def by (rule yoe_recover)
  have doy: "doe - (365 * yoe + yoe div 4 - yoe div 100) = 306"
    by (simp add: doe_def)
  have m1: "(5 * 306 + 2) div 153 = (10::int)" by simp
  have m2: "306 - (153 * 10 + 2) div 5 + 1 = (1::int)" by simp
  have y: "yoe + era * 400 + 1 = y" by (simp add: yoe_def)
  show ?thesis
    unfolding d civilFromDays_era [OF dr] Let_def k doy m1 m2
    by (simp add: y)
qed

lemma FixedZone_apply: "FixedZone off sec = (off, alpha, omega)"
  by (simp add: FixedZone_def)

lemma time_Date_fixed:
  "time_Date y m d h mi s ns (FixedZone off) =
     \<lparr>unixSec = daysFromCivil (y + (m - 1) div 12) ((m - 1) mod 12 + 1) d * 86400 + h * 3600
                  + mi * 60 + s + ns div 1000000000 - off,
      nsec = ns mod 1000000000, zone = FixedZone off\<rparr>"
  by (simp add: time_Date_def FixedZone_apply zoneOffset_def Let_def)

lemma days_year_1: "daysFromCivil 1 1 1 = - 719162"
  by code_simp

lemma zeroTime_is_year_1: "time_Date 1 1 1 0 0 0 0 UTC = zeroTime"
  by (simp add: UTC_def time_Date_fixed days_year_1 zeroTime_def)

lemma civilDate_time_Date:
  "civilDate (time_Date y 1 d 0 0 0 0 (FixedZone off)) = civilFromDays (daysFromCivil y 1 d)"
  by (simp add: civilDate_def time_Date_fixed zoneOffset_def FixedZone_apply)

lemma civilClock_time_Date:
  "civilClock (time_Date y 1 d 0 0 0 0 (FixedZone off)) = (0, 0, 0)"
  by (simp add: civilClock_def time_Date_fixed zoneOffset_def FixedZone_apply)

lemma nsec_time_Date:
  "nsec (time_Date y m d h mi s 0 l) = 0" "zone (time_Date y m d h mi s ns l) = l"
  by (simp_all add: time_Date_def Let_def split: prod.splits)

lemma AddDate_jan1:
  assumes "civilFromDays (daysFromCivil y 1 1) = (y, 1, 1)"
  shows "AddDate (time_Date y 1 1 0 0 0 0 (FixedZone off)) 0 0 n
           = time_Date y 1 (1 + n) 0 0 0 0 (FixedZone off)"
  by (simp add: AddDate_def civilDate_time_Date civilClock_time_Date assms nsec_time_Date)

lemma yearDayToTime_eq:
  assumes "civilFromDays (daysFromCivil y 1 1) = (y, 1, 1)"
    and "100 \<le> y" "y \<le> 9999" "1 \<le> yd" "yd \<le> MaxInt32"
  shows "yearDayToTime (FixedZone off) y yd =
           (if fst (civilFromDays (daysFromCivil y 1 yd)) > 9999 then zeroTime
            else time_Date y 1 yd 0 0 0 0 (FixedZone off))"
  using assms(2-)
  by (simp add: yearDayToTime_def Let_def AddDate_jan1 [OF assms(1)] time_Year_def
      civilDate_time_Date)

lemma yearDayToTime_pivot_low:
  "0 \<le> y \<Longrightarrow> y < 70 \<Longrightarrow> yearDayToTime l y yd = yearDayToTime l (y + 2000) yd"
  by (simp add: yearDayToTime_def)

lemma yearDayToTime_pivot_high:
  "70 \<le> y \<Longrightarrow> y < 100 \<Longrightarrow> yearDayToTime l y yd = yearDayToTime l (y + 1900) yd"
  by (simp add: yearDayToTime_def)

lemma yearDayToTime_jan1:
  assumes "100 \<le> y" "y \<le> 9999"
  shows "yearDayToTime (FixedZone off) y 1 = time_Date y 1 1 0 0 0 0 (FixedZone off)"
  using assms
  by (simp add: yearDayToTime_eq [OF jan1_roundtrip] jan1_roundtrip MaxInt32_def)

lemma date_of_time_Date:
  "dt_Date (NewDateTimeFromStd (time_Date y 1 d 0 0 0 0 (FixedZone off))) =
     (case civilFromDays (daysFromCivil y 1 d) of (y', m', d') \<Rightarrow>
        \<lparr>d_year = nat y', d_month = nat m', d_day = nat d'\<rparr>)"
  by (simp add: NewDateTimeFromStd_def civilDate_time_Date civilClock_time_Date split: prod.splits)

lemma leap_day: "civilFromDays (daysFromCivil 2024 1 60) = (2024, 2, 29)"
  by code_simp

lemma makedate_2024_60:
  "dt_Date (NewDateTimeFromStd (yearDayToTime (FixedZone off) 2024 60))
     = \<lparr>d_year = 2024, d_month = 2, d_day = 29\<rparr>"
  by (simp add: yearDayToTime_eq [OF jan1_roundtrip] MaxInt32_def leap_day date_of_time_Date)

lemma year_pivot_low:
  assumes "0 \<le> y" "y < 70"
  shows "time_Year (yearDayToTime (FixedZone off) y 1) = 2000 + y"
  using assms
  by (simp add: yearDayToTime_pivot_low yearDayToTime_jan1 time_Year_def civilDate_time_Date
      jan1_roundtrip)

lemma year_pivot_high:
  assumes "70 \<le> y" "y < 100"
  shows "time_Year (yearDayToTime (FixedZone off) y 1) = 1900 + y"
  using assms
  by (simp add: yearDayToTime_pivot_high yearDayToTime_jan1 time_Year_def civilDate_time_Date
      jan1_roundtrip)

lemma days_2024_60: "daysFromCivil 2024 1 60 = 19782"
  by code_simp

lemma days_jan1_1970: "daysFromCivil 1970 1 1 = 0"
  by code_simp

lemma days_jan1_2069: "daysFromCivil 2069 1 1 = 36160"
  by code_simp

lemma yearDayToTime_examples:
  "dt_Date (NewDateTimeFromStd (yearDayToTime (FixedZone off) 70 1))
     = \<lparr>d_year = 1970, d_month = 1, d_day = 1\<rparr>"
  "dt_Date (NewDateTimeFromStd (yearDayToTime (FixedZone off) 69 1))
     = \<lparr>d_year = 2069, d_month = 1, d_day = 1\<rparr>"
  by (simp_all add: yearDayToTime_pivot_low [of 69] yearDayToTime_pivot_high [of 70]
      yearDayToTime_jan1 date_of_time_Date jan1_roundtrip)

lemma yearDayToTime_2024_60:
  "yearDayToTime (FixedZone off) 2024 60 = time_Date 2024 1 60 0 0 0 0 (FixedZone off)"
  by (simp add: yearDayToTime_eq [OF jan1_roundtrip] MaxInt32_def leap_day)

lemma yearDayToTime_70_1:
  "yearDayToTime (FixedZone off) 70 1 = time_Date 1970 1 1 0 0 0 0 (FixedZone off)"
  by (simp add: yearDayToTime_pivot_high [of 70] yearDayToTime_jan1)

lemma yearDayToTime_69_1:
  "yearDayToTime (FixedZone off) 69 1 = time_Date 2069 1 1 0 0 0 0 (FixedZone off)"
  by (simp add: yearDayToTime_pivot_low [of 69] yearDayToTime_jan1)

lemma yearDayToTime_nonzero:
  assumes "- 86400 < off" "off < 86400"
  shows "\<not> IsZero (yearDayToTime (FixedZone off) 2024 60)"
    "\<not> IsZero (yearDayToTime (FixedZone off) 70 1)"
    "\<not> IsZero (yearDayToTime (FixedZone off) 69 1)"
  using assms
  by (simp_all add: yearDayToTime_2024_60 yearDayToTime_70_1 yearDayToTime_69_1
      IsZero_def time_Date_fixed days_2024_60 days_jan1_1970 days_jan1_2069)

text \<open>
  In a location with one fixed offset, as UTC is, \<open>yearDayToTime\<close> reads a year from 0 to 69
  as 2000 to 2069 and a year from 70 to 99 as 1900 to 1999, the day of the year is counted
  from January 1 on the calendar, and a day that falls after the year 9999 gives the zero
  time.
\<close>

lemma yearDayToTime_fixed_zone:
  "(0 \<le> y \<and> y < 70 \<longrightarrow>
      yearDayToTime l y yd = yearDayToTime l (y + 2000) yd
      \<and> time_Year (yearDayToTime (FixedZone off) y 1) = 2000 + y)
   \<and> (70 \<le> y \<and> y < 100 \<longrightarrow>
      yearDayToTime l y yd = yearDayToTime l (y + 1900) yd
      \<and> time_Year (yearDayToTime (FixedZone off) y 1) = 1900 + y)
   \<and> (100 \<le> y \<and> y \<le> 9999 \<and> 1 \<le> yd \<and> yd \<le> MaxInt32 \<longrightarrow>
      yearDayToTime (FixedZone off) y yd =
        (if fst (civilFromDays (daysFromCivil y 1 1 + (yd - 1))) > 9999 then zeroTime
         else time_Date y 1 yd 0 0 0 0 (FixedZone off))
      \<and> civilDate (time_Date y 1 yd 0 0 0 0 (FixedZone off))
           = civilFromDays (daysFromCivil y 1 1 + (yd - 1)))
   \<and> dt_Date (NewDateTimeFromStd (yearDayToTime (FixedZone off) 70 1))
       = \<lparr>d_year = 1970, d_month = 1, d_day = 1\<rparr>
   \<and> dt_Date (NewDateTimeFromStd (yearDayToTime (FixedZone off) 69 1))
       = \<lparr>d_year = 2069, d_month = 1, d_day = 1\<rparr>
   \<and> dt_Date (NewDateTimeFromStd (yearDayToTime (FixedZone off) 2024 60))
       = \<lparr>d_year = 2024, d_month = 2, d_day = 29\<rparr>"
proof -
  have lin: "daysFromCivil y 1 yd = daysFromCivil y 1 1 + (yd - 1)"
    by (simp add: daysFromCivil_def Let_def)
  have g: "100 \<le> y \<and> y \<le> 9999 \<and> 1 \<le> yd \<and> yd \<le> MaxInt32 \<longrightarrow>
      yearDayToTime (FixedZone off) y yd =
        (if fst (civilFromDays (daysFromCivil y 1 1 + (yd - 1))) > 9999 then zeroTime
         else time_Date y 1 yd 0 0 0 0 (FixedZone off))
      \<and> civilDate (time_Date y 1 yd 0 0 0 0 (FixedZone off))
           = civilFromDays (daysFromCivil y 1 1 + (yd - 1))"
    using yearDayToTime_eq [OF jan1_roundtrip, of y yd off] civilDate_time_Date [of y yd off]
    unfolding lin by blast
  show ?thesis
    using yearDayToTime_pivot_low [of y l yd] yearDayToTime_pivot_high [of y l yd]
      year_pivot_low [of y off] year_pivot_high [of y off]
      yearDayToTime_examples [of off] makedate_2024_60 [of off] g
    by blast
qed

section \<open>MAKETIME: validation, clamping and sign\<close>


lemma maketime_eval_numeric:
  assumes "evalArg b 0 env = (Inr (Some hr), envA)"
    and "evalArg b 1 envA = (Inr (Some mn), envB)"
    and "evalArg b 2 envB = (Inr (Some sc), envC)"
  shows "builtinMaketime_eval L b env =
           (case evalToNumeric L sc False of
              EvalInt64 si \<Rightarrow>
                (case makeTime_i (maketime_hour L hr) (evalToInt64 L mn) si of (v, ok) \<Rightarrow>
                   if \<not> ok then (Inr None, envC)
                   else (case ParseTimeInt64 L v of (t, ok') \<Rightarrow>
                           if \<not> ok' then (Inr None, envC)
                           else (Inr (Some (EvalTemporal (newEvalTime t 0))), envC)))
            | EvalUint64 su \<Rightarrow>
                (case makeTime_i (maketime_hour L hr) (evalToInt64 L mn) (int64_of_uint64 su) of
                   (v, ok) \<Rightarrow>
                   if \<not> ok then (Inr None, envC)
                   else (case ParseTimeInt64 L v of (t, ok') \<Rightarrow>
                           if \<not> ok' then (Inr None, envC)
                           else (Inr (Some (EvalTemporal (newEvalTime t 0))), envC)))
            | EvalDecimal sd len \<Rightarrow>
                (case makeTime_d (maketime_hour L hr) (evalToInt64 L mn) sd of (v, ok) \<Rightarrow>
                   if \<not> ok then (Inr None, envC)
                   else (case ParseTimeDecimal L v len (- 1) of (t, l, ok') \<Rightarrow>
                           if \<not> ok' then (Inr None, envC)
                           else (Inr (Some (EvalTemporal (newEvalTime t l))), envC)))
            | EvalFloat sf \<Rightarrow>
                (case makeTime_f L (maketime_hour L hr) (evalToInt64 L mn) sf of (v, ok) \<Rightarrow>
                   if \<not> ok then (Inr None, envC)
                   else (case ParseTimeFloat L v (- 1) of (t, l, ok') \<Rightarrow>
                           if \<not> ok' then (Inr None, envC)
                           else (Inr (Some (EvalTemporal (newEvalTime t l))), envC)))
            | _ \<Rightarrow> (Inr None, envC))"
  using assms by (simp add: builtinMaketime_eval_def Let_def)


lemma maketime_eval_int:
  assumes "evalArg b 0 env = (Inr (Some hr), envA)"
    and "evalArg b 1 envA = (Inr (Some mn), envB)"
    and "evalArg b 2 envB = (Inr (Some sc), envC)"
    and "maketime_hour L hr = h" "evalToInt64 L mn = m"
    and "evalToNumeric L sc False = EvalInt64 si
         \<or> (\<exists>su. evalToNumeric L sc False = EvalUint64 su \<and> si = int64_of_uint64 su)"
  shows "builtinMaketime_eval L b env =
           (if m < 0 \<or> m > 59 \<or> si < 0 \<or> si > 59 then (Inr None, envC)
            else (case ParseTimeInt64 L
                         (if h > 838 then 8385959
                          else if h < - 838 then - 8385959
                          else if h < 0 then - (- h * 10000 + m * 100 + si)
                          else h * 10000 + m * 100 + si) of
                    (t, ok) \<Rightarrow>
                      if ok then (Inr (Some (EvalTemporal (newEvalTime t 0))), envC)
                      else (Inr None, envC)))"
proof -
  define c where "c = (if h > 838 then 8385959
                          else if h < - 838 then - 8385959
                          else if h < 0 then - (- h * 10000 + m * 100 + si)
                          else h * 10000 + m * 100 + si)"
  have e: "builtinMaketime_eval L b env =
             (case makeTime_i h m si of (v, ok) \<Rightarrow>
                if \<not> ok then (Inr None, envC)
                else (case ParseTimeInt64 L v of (t, ok') \<Rightarrow>
                        if \<not> ok' then (Inr None, envC)
                        else (Inr (Some (EvalTemporal (newEvalTime t 0))), envC)))"
    using assms(4-) by (auto simp add: maketime_eval_numeric [OF assms(1-3)])
  show ?thesis
  proof (cases "m < 0 \<or> m > 59 \<or> si < 0 \<or> si > 59")
    case True
    then show ?thesis
      unfolding e by (simp add: makeTime_i_invalid)
  next
    case False
    then have r: "0 \<le> m" "m \<le> 59" "0 \<le> si" "si \<le> 59" by simp_all
    have v: "makeTime_i h m si = (c, True)"
      unfolding c_def by (simp add: makeTime_i_valid [OF r])
    have "builtinMaketime_eval L b env =
            (case ParseTimeInt64 L c of
               (t, ok) \<Rightarrow>
                 if ok then (Inr (Some (EvalTemporal (newEvalTime t 0))), envC)
                 else (Inr None, envC))"
      unfolding e v by (cases "ParseTimeInt64 L c") simp
    then show ?thesis
      using False unfolding c_def by simp
  qed
qed




lemma int64_of_uint64_small: "int u \<le> MaxInt64 \<Longrightarrow> int64_of_uint64 u = int u"
  by (simp add: int64_of_uint64_def MaxInt64_def)

lemma maketime_hour_kinds:
  "maketime_hour L (EvalInt64 i) = i"
  "maketime_hour L (EvalUint64 u) = min (int u) MaxInt64"
  "isHexOrBitLiteral e \<Longrightarrow> toNumericHex L e = Some x \<Longrightarrow>
     maketime_hour L (EvalBytes e) = min (int x) MaxInt64"
  "isHexOrBitLiteral e \<Longrightarrow> toNumericHex L e = None \<Longrightarrow> maketime_hour L (EvalBytes e) = 0"
  "\<not> isHexOrBitLiteral e \<Longrightarrow> maketime_hour L (EvalBytes e) = evalToInt64 L (EvalBytes e)"
  "maketime_hour L (EvalFloat f) = evalToInt64 L (EvalFloat f)"
  "maketime_hour L (EvalDecimal dec len) = evalToInt64 L (EvalDecimal dec len)"
  "maketime_hour L (EvalTemporal t) = evalToInt64 L (EvalTemporal t)"
  by (auto simp add: maketime_hour_def int64_of_uint64_small min_def)



lemma evalArg_intArgs:
  "i < length xs \<Longrightarrow> evalArg (mkCall (intArgs xs)) i env = (Inr (Some (EvalInt64 (xs ! i))), env)"
  by (simp add: evalArg_def mkCall_def intArgs_def constExpr_def)

lemma evalArg_constExpr:
  "i < length xs \<Longrightarrow> xs ! i = constExpr v ct \<Longrightarrow> evalArg (mkCall xs) i env = (Inr v, env)"
  by (simp add: evalArg_def mkCall_def constExpr_def)

lemma sampleLib_ints:
  "evalToInt64 sampleLib (EvalInt64 i) = i"
  "evalToNumeric sampleLib e f = e"
  "ParseTimeInt64 sampleLib = sample_ParseTimeInt64"
  by (simp_all add: sampleLib_def sample_toInt64_def)

lemma sampleLib_hex:
  "toNumericHex sampleLib = sample_toNumericHex"
  "ParseTimeDecimal sampleLib = sample_ParseTimeDecimal"
  "Local sampleLib = UTC"
  by (simp_all add: sampleLib_def)

lemma sampleHex_value:
  "sampleHex = EvalBytes \<lparr>bytes_tt = VarBinary, bytes_col = collationBinary, bytes = [CHR 0x10],
                isHexLiteral = True, isBitLiteral = False\<rparr>"
  "sample_toNumericHex \<lparr>bytes_tt = VarBinary, bytes_col = collationBinary, bytes = [CHR 0x10],
                isHexLiteral = True, isBitLiteral = False\<rparr> = Some 16"
  by (simp_all add: sampleHex_def sample_toNumericHex_def)

lemma sampleLongHex_value:
  "\<exists>e. sampleLongHex = EvalBytes e \<and> isHexOrBitLiteral e \<and> sample_toNumericHex e = None"
  by (simp add: sampleLongHex_def sample_toNumericHex_def isHexOrBitLiteral_def)


section \<open>MAKEDATE evaluates the day of the year first\<close>

lemma evalArg_update0:
  "evalArg (b\<lparr>Arguments := (Arguments b)[0 := a]\<rparr>) (Suc i) env = evalArg b (Suc i) env"
  by (simp add: evalArg_def)

lemma compileArg_update0:
  "compileArg (b\<lparr>Arguments := (Arguments b)[0 := a]\<rparr>) (Suc i) c = compileArg b (Suc i) c"
  by (simp add: compileArg_def)

lemma makedate_eval_first:
  assumes "evalArg b 1 env = (r, env1)" "r = Inl err \<or> r = Inr None"
  shows "builtinMakedate_eval L b env = (r, env1)"
  using assms by (auto simp add: builtinMakedate_eval_def)

lemma makedate_eval_second:
  assumes "evalArg b 1 env = (Inr (Some yearDay), env1)" "evalArg b 0 env1 = (r, env2)"
    "r = Inl err \<or> r = Inr None"
  shows "builtinMakedate_eval L b env = (r, env2)"
  using assms by (auto simp add: builtinMakedate_eval_def)

lemma makedate_eval_both:
  assumes "evalArg b 1 env = (Inr (Some yearDay), env1)"
    "evalArg b 0 env1 = (Inr (Some yr), env2)"
  shows "builtinMakedate_eval L b env =
           (if IsZero (yearDayToTime (Local L) (evalToInt64 L yr) (evalToInt64 L yearDay))
            then (Inr None, env2)
            else (Inr (Some (EvalTemporal (newEvalDate (dt_Date (NewDateTimeFromStd
                   (yearDayToTime (Local L) (evalToInt64 L yr) (evalToInt64 L yearDay))))))),
                  env2))"
  using assms by (simp add: builtinMakedate_eval_def Let_def)

lemma makedate_compile_first:
  assumes "compileArg b 1 c = (Inl err, c1)"
  shows "builtinMakedate_compile b c = (Inl err, c1)"
  using assms by (simp add: builtinMakedate_compile_def)

lemma ins_jumpDestination: "ins (jumpDestination js c) = ins c"
  by (induction js c rule: jumpDestination.induct) simp_all

lemma ins_compileNullCheck1:
  "ins (snd (compileNullCheck1 ct c)) =
     ins c @ (if nullable ct then [NullCheck1 (length (jumps c))] else [])"
  by (simp add: compileNullCheck1_def jumpFrom_def emit_def)

lemma ins_compileNullCheck1r:
  "ins (snd (compileNullCheck1r ct c)) =
     ins c @ (if nullable ct then [NullCheck1r (length (jumps c))] else [])"
  by (simp add: compileNullCheck1r_def jumpFrom_def emit_def)

lemma makedate_compile_program:
  assumes "compileArg b 1 c = (Inr yearDay, c1)"
    and "ins c1 = ins c @ p1"
    and "compileArg b 0 (snd (compileNullCheck1 yearDay c1)) = (Inr yr, c3)"
    and "ins c3 = ins (snd (compileNullCheck1 yearDay c1)) @ p0"
  shows "ins (snd (builtinMakedate_compile b c)) =
           ins c @ p1
           @ (if nullable yearDay then [NullCheck1 (length (jumps c1))] else [])
           @ p0
           @ (if nullable yr then [NullCheck1r (length (jumps c3))] else [])
           @ (if Type yearDay = Int64 then [] else [Convert_xi 2])
           @ (if Type yr = Int64 then [] else [Convert_xi 1])
           @ [Fn_MAKEDATE]"
proof -
  obtain skip1 c2 where n1: "compileNullCheck1 yearDay c1 = (skip1, c2)"
    by (cases "compileNullCheck1 yearDay c1")
  obtain skip2 c4 where n2: "compileNullCheck1r yr c3 = (skip2, c4)"
    by (cases "compileNullCheck1r yr c3")
  have a3: "compileArg b 0 c2 = (Inr yr, c3)"
    using assms(3) n1 by simp
  have i2: "ins c2 = ins c1 @ (if nullable yearDay then [NullCheck1 (length (jumps c1))] else [])"
    using ins_compileNullCheck1 [of yearDay c1] n1 by simp
  have i3: "ins c3 = ins c2 @ p0"
    using assms(4) n1 by simp
  have i4: "ins c4 = ins c3 @ (if nullable yr then [NullCheck1r (length (jumps c3))] else [])"
    using ins_compileNullCheck1r [of yr c3] n2 by simp
  have r: "snd (builtinMakedate_compile b c) =
             jumpDestination [skip1, skip2]
               (emit Fn_MAKEDATE
                  (if Type yr = Int64
                   then (if Type yearDay = Int64 then c4 else emit (Convert_xi 2) c4)
                   else emit (Convert_xi 1)
                          (if Type yearDay = Int64 then c4 else emit (Convert_xi 2) c4)))"
    using assms(1) a3 n1 n2 by (simp add: builtinMakedate_compile_def Let_def)
  show ?thesis
    unfolding r ins_jumpDestination
    by (simp add: emit_def i4 i3 i2 assms(2))
qed

text \<open>
  C3: MAKEDATE evaluates its second argument, the day of the year, before its first, the
  year. When the second argument fails or is null, that is the result, in the environment
  the second argument left, whatever the first argument is: the first argument is not
  evaluated. Only then the first argument is evaluated, in the environment the second one
  left, and checked for null; with both values present the date is computed. Compilation
  follows the same order: when compiling the second argument fails, the first is not
  compiled, and otherwise the program holds the second argument's instructions and its
  null check before the first argument's.
\<close>

theorem MAKEDATE_day_of_year_first:
  "(evalArg b 1 env = (Inl err, envD) \<longrightarrow>
      builtinMakedate_eval L b env = (Inl err, envD)
      \<and> (\<forall>a. builtinMakedate_eval L (b\<lparr>Arguments := (Arguments b)[0 := a]\<rparr>) env
             = (Inl err, envD)))
   \<and> (evalArg b 1 env = (Inr None, envD) \<longrightarrow>
      builtinMakedate_eval L b env = (Inr None, envD)
      \<and> (\<forall>a. builtinMakedate_eval L (b\<lparr>Arguments := (Arguments b)[0 := a]\<rparr>) env
             = (Inr None, envD)))
   \<and> (evalArg b 1 env = (Inr (Some yearDay), envD) \<and> evalArg b 0 envD = (Inl err, envY) \<longrightarrow>
      builtinMakedate_eval L b env = (Inl err, envY))
   \<and> (evalArg b 1 env = (Inr (Some yearDay), envD) \<and> evalArg b 0 envD = (Inr None, envY) \<longrightarrow>
      builtinMakedate_eval L b env = (Inr None, envY))
   \<and> (evalArg b 1 env = (Inr (Some yearDay), envD)
        \<and> evalArg b 0 envD = (Inr (Some yr), envY) \<longrightarrow>
      builtinMakedate_eval L b env =
        (if IsZero (yearDayToTime (Local L) (evalToInt64 L yr) (evalToInt64 L yearDay))
         then (Inr None, envY)
         else (Inr (Some (EvalTemporal (newEvalDate (dt_Date (NewDateTimeFromStd
                 (yearDayToTime (Local L) (evalToInt64 L yr) (evalToInt64 L yearDay))))))),
               envY)))
   \<and> (compileArg b 1 c = (Inl err, cD) \<longrightarrow>
      builtinMakedate_compile b c = (Inl err, cD)
      \<and> (\<forall>a. builtinMakedate_compile (b\<lparr>Arguments := (Arguments b)[0 := a]\<rparr>) c
             = (Inl err, cD)))
   \<and> (compileArg b 1 c = (Inr ctDay, cD) \<and> ins cD = ins c @ pD
        \<and> compileArg b 0 (snd (compileNullCheck1 ctDay cD)) = (Inr ctYear, cY)
        \<and> ins cY = ins (snd (compileNullCheck1 ctDay cD)) @ pY \<longrightarrow>
      ins (snd (builtinMakedate_compile b c)) =
        ins c @ pD
        @ (if nullable ctDay then [NullCheck1 (length (jumps cD))] else [])
        @ pY
        @ (if nullable ctYear then [NullCheck1r (length (jumps cY))] else [])
        @ (if Type ctDay = Int64 then [] else [Convert_xi 2])
        @ (if Type ctYear = Int64 then [] else [Convert_xi 1])
        @ [Fn_MAKEDATE])"
proof -
  have u: "\<And>a. evalArg (b\<lparr>Arguments := (Arguments b)[0 := a]\<rparr>) 1 env = evalArg b 1 env"
    using evalArg_update0 [of b _ 0 env] by simp
  have v: "\<And>a. compileArg (b\<lparr>Arguments := (Arguments b)[0 := a]\<rparr>) 1 c = compileArg b 1 c"
    using compileArg_update0 [of b _ 0 c] by simp
  have e1: "evalArg b 1 env = (Inl err, envD) \<longrightarrow>
      builtinMakedate_eval L b env = (Inl err, envD)
      \<and> (\<forall>a. builtinMakedate_eval L (b\<lparr>Arguments := (Arguments b)[0 := a]\<rparr>) env
             = (Inl err, envD))"
  proof (intro impI conjI allI)
    assume h: "evalArg b 1 env = (Inl err, envD)"
    show "builtinMakedate_eval L b env = (Inl err, envD)"
      using makedate_eval_first [OF h] by simp
    fix a
    have "evalArg (b\<lparr>Arguments := (Arguments b)[0 := a]\<rparr>) 1 env = (Inl err, envD)"
      using u h by simp
    then show "builtinMakedate_eval L (b\<lparr>Arguments := (Arguments b)[0 := a]\<rparr>) env
                 = (Inl err, envD)"
      using makedate_eval_first by blast
  qed
  have e2: "evalArg b 1 env = (Inr None, envD) \<longrightarrow>
      builtinMakedate_eval L b env = (Inr None, envD)
      \<and> (\<forall>a. builtinMakedate_eval L (b\<lparr>Arguments := (Arguments b)[0 := a]\<rparr>) env
             = (Inr None, envD))"
  proof (intro impI conjI allI)
    assume h: "evalArg b 1 env = (Inr None, envD)"
    show "builtinMakedate_eval L b env = (Inr None, envD)"
      using makedate_eval_first [OF h] by simp
    fix a
    have "evalArg (b\<lparr>Arguments := (Arguments b)[0 := a]\<rparr>) 1 env = (Inr None, envD)"
      using u h by simp
    then show "builtinMakedate_eval L (b\<lparr>Arguments := (Arguments b)[0 := a]\<rparr>) env
                 = (Inr None, envD)"
      using makedate_eval_first by blast
  qed
  have e3: "evalArg b 1 env = (Inr (Some yearDay), envD) \<and> evalArg b 0 envD = (Inl err, envY) \<longrightarrow>
      builtinMakedate_eval L b env = (Inl err, envY)"
    using makedate_eval_second [of b env yearDay envD "Inl err" envY err L] by simp
  have e4: "evalArg b 1 env = (Inr (Some yearDay), envD) \<and> evalArg b 0 envD = (Inr None, envY) \<longrightarrow>
      builtinMakedate_eval L b env = (Inr None, envY)"
    using makedate_eval_second [of b env yearDay envD "Inr None" envY err L] by simp
  have e5: "evalArg b 1 env = (Inr (Some yearDay), envD)
        \<and> evalArg b 0 envD = (Inr (Some yr), envY) \<longrightarrow>
      builtinMakedate_eval L b env =
        (if IsZero (yearDayToTime (Local L) (evalToInt64 L yr) (evalToInt64 L yearDay))
         then (Inr None, envY)
         else (Inr (Some (EvalTemporal (newEvalDate (dt_Date (NewDateTimeFromStd
                 (yearDayToTime (Local L) (evalToInt64 L yr) (evalToInt64 L yearDay))))))),
               envY))"
    using makedate_eval_both [of b env yearDay envD yr envY L] by blast
  have k1: "compileArg b 1 c = (Inl err, cD) \<longrightarrow>
      builtinMakedate_compile b c = (Inl err, cD)
      \<and> (\<forall>a. builtinMakedate_compile (b\<lparr>Arguments := (Arguments b)[0 := a]\<rparr>) c
             = (Inl err, cD))"
  proof (intro impI conjI allI)
    assume h: "compileArg b 1 c = (Inl err, cD)"
    show "builtinMakedate_compile b c = (Inl err, cD)"
      using makedate_compile_first [OF h] by simp
    fix a
    have "compileArg (b\<lparr>Arguments := (Arguments b)[0 := a]\<rparr>) 1 c = (Inl err, cD)"
      using v h by simp
    then show "builtinMakedate_compile (b\<lparr>Arguments := (Arguments b)[0 := a]\<rparr>) c
                 = (Inl err, cD)"
      using makedate_compile_first by blast
  qed
  have k2: "compileArg b 1 c = (Inr ctDay, cD) \<and> ins cD = ins c @ pD
        \<and> compileArg b 0 (snd (compileNullCheck1 ctDay cD)) = (Inr ctYear, cY)
        \<and> ins cY = ins (snd (compileNullCheck1 ctDay cD)) @ pY \<longrightarrow>
      ins (snd (builtinMakedate_compile b c)) =
        ins c @ pD
        @ (if nullable ctDay then [NullCheck1 (length (jumps cD))] else [])
        @ pY
        @ (if nullable ctYear then [NullCheck1r (length (jumps cY))] else [])
        @ (if Type ctDay = Int64 then [] else [Convert_xi 2])
        @ (if Type ctYear = Int64 then [] else [Convert_xi 1])
        @ [Fn_MAKEDATE]"
    using makedate_compile_program [of b c ctDay cD pD ctYear cY pY] by blast
  show ?thesis
    using e1 e2 e3 e4 e5 k1 k2 by (intro conjI)
qed

lemma evalArg_traced:
  "i < length xs \<Longrightarrow> xs ! i = tracedExpr tag v ct \<Longrightarrow>
   evalArg (mkCall xs) i env = (Inr v, env\<lparr>ExpressionEnv.more := ExpressionEnv.more env @ [tag]\<rparr>)"
  by (simp add: evalArg_def mkCall_def tracedExpr_def)

lemma compileArg_traced:
  "i < length xs \<Longrightarrow> xs ! i = tracedExpr tag v ct \<Longrightarrow>
   compileArg (mkCall xs) i c = (Inr ct, emit (Op tag) c)"
  by (simp add: compileArg_def mkCall_def tracedExpr_def)

theorem MAKEDATE_day_of_year_first_witness:
  "builtinMakedate_eval sampleLib
      (mkCall [tracedExpr 0 (Some (EvalInt64 2024)) intType, tracedExpr 1 None nullableIntType])
      tracingEnv
     = (Inr None, tracingEnv\<lparr>ExpressionEnv.more := [1]\<rparr>)
   \<and> builtinMakedate_eval sampleLib
      (mkCall [failExpr (Failure ''year''), tracedExpr 1 None nullableIntType])
      tracingEnv
     = (Inr None, tracingEnv\<lparr>ExpressionEnv.more := [1]\<rparr>)
   \<and> builtinMakedate_eval sampleLib
      (mkCall [tracedExpr 0 (Some (EvalInt64 2024)) intType,
               tracedExpr 1 (Some (EvalInt64 60)) intType])
      tracingEnv
     = (Inr (Some (EvalTemporal (newEvalDate \<lparr>d_year = 2024, d_month = 2, d_day = 29\<rparr>))),
        tracingEnv\<lparr>ExpressionEnv.more := [1, 0]\<rparr>)
   \<and> ins (snd (builtinMakedate_compile
        (mkCall [tracedExpr 0 None nullableIntType, tracedExpr 1 None nullableIntType])
        emptyCompiler))
     = [Op 1, NullCheck1 0, Op 0, NullCheck1r 1, Fn_MAKEDATE]"
proof -
  have t0: "ExpressionEnv.more tracingEnv = []"
    by (simp add: tracingEnv_def)
  have a: "builtinMakedate_eval sampleLib
      (mkCall [tracedExpr 0 (Some (EvalInt64 2024)) intType, tracedExpr 1 None nullableIntType])
      tracingEnv
     = (Inr None, tracingEnv\<lparr>ExpressionEnv.more := [1]\<rparr>)"
    using MAKEDATE_day_of_year_first
      [where b = "mkCall [tracedExpr 0 (Some (EvalInt64 2024)) intType,
                          tracedExpr 1 None nullableIntType]"
         and env = tracingEnv and envD = "tracingEnv\<lparr>ExpressionEnv.more := [1]\<rparr>"
         and L = sampleLib, THEN conjunct2, THEN conjunct1]
    by (simp add: evalArg_traced t0)
  have b: "builtinMakedate_eval sampleLib
      (mkCall [failExpr (Failure ''year''), tracedExpr 1 None nullableIntType])
      tracingEnv
     = (Inr None, tracingEnv\<lparr>ExpressionEnv.more := [1]\<rparr>)"
    using MAKEDATE_day_of_year_first
      [where b = "mkCall [failExpr (Failure ''year''), tracedExpr 1 None nullableIntType]"
         and env = tracingEnv and envD = "tracingEnv\<lparr>ExpressionEnv.more := [1]\<rparr>"
         and L = sampleLib, THEN conjunct2, THEN conjunct1]
    by (simp add: evalArg_traced t0)
  have z: "\<not> IsZero (yearDayToTime UTC 2024 60)"
    using yearDayToTime_nonzero(1) [of 0] by (simp add: UTC_def)
  have l: "Local sampleLib = UTC"
    by (simp add: sampleLib_def)
  have dd: "dt_Date (NewDateTimeFromStd (yearDayToTime UTC 2024 60))
              = \<lparr>d_year = 2024, d_month = 2, d_day = 29\<rparr>"
    using makedate_2024_60 [of 0] by (simp add: UTC_def)
  have c: "builtinMakedate_eval sampleLib
      (mkCall [tracedExpr 0 (Some (EvalInt64 2024)) intType,
               tracedExpr 1 (Some (EvalInt64 60)) intType])
      tracingEnv
     = (Inr (Some (EvalTemporal (newEvalDate \<lparr>d_year = 2024, d_month = 2, d_day = 29\<rparr>))),
        tracingEnv\<lparr>ExpressionEnv.more := [1, 0]\<rparr>)"
    using MAKEDATE_day_of_year_first
      [where b = "mkCall [tracedExpr 0 (Some (EvalInt64 2024)) intType,
                          tracedExpr 1 (Some (EvalInt64 60)) intType]"
         and env = tracingEnv and envD = "tracingEnv\<lparr>ExpressionEnv.more := [1]\<rparr>"
         and L = sampleLib and yearDay = "EvalInt64 60"
         and envY = "tracingEnv\<lparr>ExpressionEnv.more := [1, 0]\<rparr>" and yr = "EvalInt64 2024",
         THEN conjunct2, THEN conjunct2, THEN conjunct2, THEN conjunct2, THEN conjunct1]
    by (simp add: evalArg_traced t0 sampleLib_ints l z dd)
  have d: "ins (snd (builtinMakedate_compile
        (mkCall [tracedExpr 0 None nullableIntType, tracedExpr 1 None nullableIntType])
        emptyCompiler))
     = [Op 1, NullCheck1 0, Op 0, NullCheck1r 1, Fn_MAKEDATE]"
    using MAKEDATE_day_of_year_first
      [where b = "mkCall [tracedExpr 0 None nullableIntType, tracedExpr 1 None nullableIntType]"
         and c = emptyCompiler and ctDay = nullableIntType and cD = "emit (Op 1) emptyCompiler"
         and pD = "[Op 1]" and ctYear = nullableIntType
         and cY = "emit (Op 0)
                     (snd (compileNullCheck1 nullableIntType (emit (Op 1) emptyCompiler)))"
         and pY = "[Op 0]",
         THEN conjunct2, THEN conjunct2, THEN conjunct2, THEN conjunct2, THEN conjunct2,
         THEN conjunct2]
    by (simp add: compileArg_traced emit_def emptyCompiler_def nullableIntType_def nullable_def
        compileNullCheck1_def jumpFrom_def)
  show ?thesis using a b c d by (intro conjI)
qed

section \<open>MAKEDATE in a zone that skips midnight\<close>

lemma saoPaulo_2018_308:
  "IsZero (yearDayToTime saoPaulo 2018 308) = False"
  "unixSec (yearDayToTime saoPaulo 2018 308) = 1541296800"
  "dt_Date (NewDateTimeFromStd (yearDayToTime saoPaulo 2018 308))
     = \<lparr>d_year = 2018, d_month = 11, d_day = 3\<rparr>"
  "dt_Time (NewDateTimeFromStd (yearDayToTime saoPaulo 2018 308))
     = \<lparr>t_hour = 23, t_minute = 0, t_second = 0, t_nanosecond = 0, t_neg = False\<rparr>"
  by code_simp+

lemma utc_2018_308:
  "IsZero (yearDayToTime UTC 2018 308) = False"
  "dt_Date (NewDateTimeFromStd (yearDayToTime UTC 2018 308))
     = \<lparr>d_year = 2018, d_month = 11, d_day = 4\<rparr>"
  by code_simp+

lemma day_308_of_2018: "civilFromDays (daysFromCivil 2018 1 1 + (308 - 1)) = (2018, 11, 4)"
  by code_simp

text \<open>
  C8: \<open>yearDayToTime\<close> builds the midnight that starts the year in the local zone of the
  process and adds the days in that zone. Where the local clock skips the midnight of the
  day asked for, the result is an instant of the day before: with the local zone
  America/Sao_Paulo, whose clock went from 2018-11-03 23:59:59 to 2018-11-04 01:00:00,
  MAKEDATE(2018, 308) is 2018-11-03 (the instant read as 2018-11-03 23:00:00), while
  day 308 of 2018 on the calendar is 2018-11-04, which is the result when the local zone
  is UTC.
\<close>

theorem MAKEDATE_skipped_midnight:
  "builtinMakedate_eval saoPauloLib (mkCall (intArgs [2018, 308])) sampleEnv
     = (Inr (Some (EvalTemporal (newEvalDate \<lparr>d_year = 2018, d_month = 11, d_day = 3\<rparr>))),
        sampleEnv)
   \<and> builtinMakedate_eval sampleLib (mkCall (intArgs [2018, 308])) sampleEnv
     = (Inr (Some (EvalTemporal (newEvalDate \<lparr>d_year = 2018, d_month = 11, d_day = 4\<rparr>))),
        sampleEnv)
   \<and> civilFromDays (daysFromCivil 2018 1 1 + (308 - 1)) = (2018, 11, 4)
   \<and> dt_Time (NewDateTimeFromStd (yearDayToTime saoPaulo 2018 308))
     = \<lparr>t_hour = 23, t_minute = 0, t_second = 0, t_nanosecond = 0, t_neg = False\<rparr>"
proof -
  have d: "evalArg (mkCall (intArgs [2018, 308])) 1 sampleEnv
             = (Inr (Some (EvalInt64 308)), sampleEnv)"
    by (simp add: evalArg_intArgs)
  have y: "evalArg (mkCall (intArgs [2018, 308])) 0 sampleEnv
             = (Inr (Some (EvalInt64 2018)), sampleEnv)"
    by (simp add: evalArg_intArgs)
  have l: "Local saoPauloLib = saoPaulo" "evalToInt64 saoPauloLib (EvalInt64 i) = i" for i
    by (simp_all add: saoPauloLib_def sampleLib_def sample_toInt64_def)
  have a: "builtinMakedate_eval saoPauloLib (mkCall (intArgs [2018, 308])) sampleEnv
     = (Inr (Some (EvalTemporal (newEvalDate \<lparr>d_year = 2018, d_month = 11, d_day = 3\<rparr>))),
        sampleEnv)"
    by (simp add: makedate_eval_both [OF d y] l saoPaulo_2018_308)
  have b: "builtinMakedate_eval sampleLib (mkCall (intArgs [2018, 308])) sampleEnv
     = (Inr (Some (EvalTemporal (newEvalDate \<lparr>d_year = 2018, d_month = 11, d_day = 4\<rparr>))),
        sampleEnv)"
    by (simp add: makedate_eval_both [OF d y] sampleLib_ints sampleLib_hex utc_2018_308)
  show ?thesis
    using a b day_308_of_2018 saoPaulo_2018_308(4) by (intro conjI)
qed

section \<open>The zero date\<close>

lemma isZero_fields:
  "isZero d \<Longrightarrow> d_year (dt_Date (tmp_dt d)) = 0 \<and> d_month (dt_Date (tmp_dt d)) = 0
     \<and> d_day (dt_Date (tmp_dt d)) = 0 \<and> Date_Quarter (dt_Date (tmp_dt d)) = 0"
  by (simp add: isZero_def zeroDate_def Date_Quarter_def)

text \<open>
  C10: when the argument is not null and converts to the zero date 0000-00-00, DAYOFWEEK,
  DAYOFYEAR, WEEK, WEEKDAY, WEEKOFYEAR and YEARWEEK return null, while DAYOFMONTH, MONTH,
  QUARTER and YEAR return the integer 0 and DATE returns the zero date itself.
\<close>

theorem zero_date_null_or_zero:
  assumes "arg1 b env = (Inr (Some date), envA)"
    and "evalToDate L date = Some d"
    and "isZero d"
  shows "builtinDayOfWeek_eval L b env = (Inr None, envA)
     \<and> builtinDayOfYear_eval L b env = (Inr None, envA)
     \<and> builtinWeek_eval L b env = (Inr None, envA)
     \<and> builtinWeekDay_eval L b env = (Inr None, envA)
     \<and> builtinWeekOfYear_eval L b env = (Inr None, envA)
     \<and> builtinYearWeek_eval L b env = (Inr None, envA)
     \<and> builtinDayOfMonth_eval L b env = (Inr (Some (EvalInt64 0)), envA)
     \<and> builtinMonth_eval L b env = (Inr (Some (EvalInt64 0)), envA)
     \<and> builtinQuarter_eval L b env = (Inr (Some (EvalInt64 0)), envA)
     \<and> builtinYear_eval L b env = (Inr (Some (EvalInt64 0)), envA)
     \<and> builtinDate_eval L b env = (Inr (Some (EvalTemporal d)), envA)"
proof -
  note z = isZero_fields [OF assms(3)]
  have "builtinDayOfWeek_eval L b env = (Inr None, envA)"
    by (simp add: builtinDayOfWeek_eval_def assms)
  moreover have "builtinDayOfYear_eval L b env = (Inr None, envA)"
    by (simp add: builtinDayOfYear_eval_def assms)
  moreover have "builtinWeek_eval L b env = (Inr None, envA)"
    by (simp add: builtinWeek_eval_def assms)
  moreover have "builtinWeekDay_eval L b env = (Inr None, envA)"
    by (simp add: builtinWeekDay_eval_def assms)
  moreover have "builtinWeekOfYear_eval L b env = (Inr None, envA)"
    by (simp add: builtinWeekOfYear_eval_def assms)
  moreover have "builtinYearWeek_eval L b env = (Inr None, envA)"
    by (simp add: builtinYearWeek_eval_def assms)
  moreover have "builtinDayOfMonth_eval L b env = (Inr (Some (EvalInt64 0)), envA)"
    by (simp add: builtinDayOfMonth_eval_def assms z newEvalInt64_def)
  moreover have "builtinMonth_eval L b env = (Inr (Some (EvalInt64 0)), envA)"
    by (simp add: builtinMonth_eval_def assms z newEvalInt64_def)
  moreover have "builtinQuarter_eval L b env = (Inr (Some (EvalInt64 0)), envA)"
    by (simp add: builtinQuarter_eval_def assms z newEvalInt64_def)
  moreover have "builtinYear_eval L b env = (Inr (Some (EvalInt64 0)), envA)"
    by (simp add: builtinYear_eval_def assms z newEvalInt64_def)
  moreover have "builtinDate_eval L b env = (Inr (Some (EvalTemporal d)), envA)"
    by (simp add: builtinDate_eval_def assms)
  ultimately show ?thesis by (intro conjI)
qed

theorem zero_date_null_or_zero_witness:
  "builtinDayOfWeek_eval sampleLib
      (mkCall [constExpr (Some (EvalTemporal (newEvalDate zeroDate))) dateType]) sampleEnv
     = (Inr None, sampleEnv)
   \<and> builtinYearWeek_eval sampleLib
      (mkCall [constExpr (Some (EvalTemporal (newEvalDate zeroDate))) dateType]) sampleEnv
     = (Inr None, sampleEnv)
   \<and> builtinDayOfMonth_eval sampleLib
      (mkCall [constExpr (Some (EvalTemporal (newEvalDate zeroDate))) dateType]) sampleEnv
     = (Inr (Some (EvalInt64 0)), sampleEnv)
   \<and> builtinQuarter_eval sampleLib
      (mkCall [constExpr (Some (EvalTemporal (newEvalDate zeroDate))) dateType]) sampleEnv
     = (Inr (Some (EvalInt64 0)), sampleEnv)
   \<and> builtinDate_eval sampleLib
      (mkCall [constExpr (Some (EvalTemporal (newEvalDate zeroDate))) dateType]) sampleEnv
     = (Inr (Some (EvalTemporal (newEvalDate zeroDate))), sampleEnv)"
proof -
  have a: "arg1 (mkCall [constExpr (Some (EvalTemporal (newEvalDate zeroDate))) dateType])
             sampleEnv
           = (Inr (Some (EvalTemporal (newEvalDate zeroDate))), sampleEnv)"
    by (simp add: arg1_def evalArg_def mkCall_def constExpr_def)
  have c: "evalToDate sampleLib (EvalTemporal (newEvalDate zeroDate)) = Some (newEvalDate zeroDate)"
    by (simp add: sampleLib_def sample_toTemporal_def)
  have z: "isZero (newEvalDate zeroDate)"
    by (simp add: isZero_def newEvalDate_def)
  show ?thesis
    using zero_date_null_or_zero [OF a c z] by simp
qed

section \<open>Builtins whose type is not nullable\<close>

lemma clock_eval_not_null:
  "readsClock c \<Longrightarrow> \<exists>v. clock_eval L s c env = (Inr (Some v), env)"
  by (cases c)
     (simp_all add: builtinNow_eval_def builtinSysdate_eval_def builtinCurdate_eval_def
        builtinUtcDate_eval_def builtinUnixTimestamp_eval_def Let_def)

lemma clock_typeof_not_nullable:
  "readsClock c \<Longrightarrow> \<exists>t. clock_typeof c env flds = Inr (t, {})"
  by (cases c)
     (simp_all add: builtinNow_typeof_def builtinSysdate_typeof_def builtinCurdate_typeof_def
        builtinUtcDate_typeof_def builtinUnixTimestamp_typeof_def)

lemma unixTimestamp_eval_arg:
  assumes "length (Arguments b) \<noteq> 0" "arg1 b env = (Inr (Some date), envA)"
  shows "builtinUnixTimestamp_eval L b env = (Inr (Some (dateTimeUnixTimestamp L envA date)), envA)"
  using assms by (simp add: builtinUnixTimestamp_eval_def)

lemma unixTimestamp_typeof_arg:
  assumes "length (Arguments b) \<noteq> 0" "typeofArg b 0 env flds = Inr (tt, f)"
  shows "builtinUnixTimestamp_typeof b env flds = Inr (Int64, insert flagAmbiguousType f)"
  using assms by (simp add: builtinUnixTimestamp_typeof_def)

lemma dateTimeUnixTimestamp_fallback:
  assumes "\<forall>e. date \<noteq> EvalTemporal e"
    and "evalToDateTime L date (- 1) = None
         \<or> (\<exists>d. evalToDateTime L date (- 1) = Some d \<and> isZero d)"
  shows "dateTimeUnixTimestamp L env date =
           (case date of
              EvalInt64 _ \<Rightarrow> EvalInt64 0
            | EvalUint64 _ \<Rightarrow> EvalInt64 0
            | EvalDecimal _ len \<Rightarrow> EvalDecimal 0 len
            | EvalBytes d \<Rightarrow> if isHexLiteral d then EvalInt64 0 else EvalDecimal 0 6
            | _ \<Rightarrow> EvalDecimal 0 6)"
  using assms
  by (cases date)
     (auto simp add: dateTimeUnixTimestamp_def Let_def newEvalInt64_def
        newEvalDecimalWithPrec_def)

text \<open>
  C9: the builtins whose inferred type has no nullable flag never evaluate to null. NOW,
  CURRENT_TIME, SYSDATE, CURDATE, UTC_DATE and UNIX_TIMESTAMP without argument have the
  empty flag set and return a value. UNIX_TIMESTAMP with one argument has the nullable
  flag exactly when its argument has it, and returns a value whenever the argument
  evaluates to a value; when that value is not temporal and does not convert to a
  datetime (or converts to the zero datetime), the result is the integer 0 for an
  integer or a hexadecimal literal, and the decimal 0 with the scale of a decimal
  argument, or scale 6, otherwise.
\<close>

theorem not_nullable_never_null:
  "(readsClock c \<longrightarrow>
      (\<exists>t. clock_typeof c env flds = Inr (t, {}))
      \<and> (\<exists>v. clock_eval L s c env = (Inr (Some v), env)))
   \<and> (length (Arguments b) \<noteq> 0 \<and> typeofArg b 0 env flds = Inr (tt, f) \<longrightarrow>
      (\<exists>f'. builtinUnixTimestamp_typeof b env flds = Inr (Int64, f')
            \<and> (flagNullable \<in> f' \<longleftrightarrow> flagNullable \<in> f)))
   \<and> (length (Arguments b) \<noteq> 0 \<and> arg1 b env = (Inr (Some date), envA) \<longrightarrow>
      builtinUnixTimestamp_eval L b env
        = (Inr (Some (dateTimeUnixTimestamp L envA date)), envA))
   \<and> ((\<forall>e. date \<noteq> EvalTemporal e)
        \<and> (evalToDateTime L date (- 1) = None
             \<or> (\<exists>d. evalToDateTime L date (- 1) = Some d \<and> isZero d)) \<longrightarrow>
      dateTimeUnixTimestamp L envA date =
        (case date of
           EvalInt64 _ \<Rightarrow> EvalInt64 0
         | EvalUint64 _ \<Rightarrow> EvalInt64 0
         | EvalDecimal _ len \<Rightarrow> EvalDecimal 0 len
         | EvalBytes d \<Rightarrow> if isHexLiteral d then EvalInt64 0 else EvalDecimal 0 6
         | _ \<Rightarrow> EvalDecimal 0 6))"
proof -
  have a: "readsClock c \<longrightarrow>
      (\<exists>t. clock_typeof c env flds = Inr (t, {}))
      \<and> (\<exists>v. clock_eval L s c env = (Inr (Some v), env))"
    using clock_eval_not_null clock_typeof_not_nullable by blast
  have b: "length (Arguments b) \<noteq> 0 \<and> typeofArg b 0 env flds = Inr (tt, f) \<longrightarrow>
      (\<exists>f'. builtinUnixTimestamp_typeof b env flds = Inr (Int64, f')
            \<and> (flagNullable \<in> f' \<longleftrightarrow> flagNullable \<in> f))"
    using unixTimestamp_typeof_arg [of b env flds tt f] by auto
  have c: "length (Arguments b) \<noteq> 0 \<and> arg1 b env = (Inr (Some date), envA) \<longrightarrow>
      builtinUnixTimestamp_eval L b env
        = (Inr (Some (dateTimeUnixTimestamp L envA date)), envA)"
    using unixTimestamp_eval_arg [of b env date envA L] by blast
  have d: "(\<forall>e. date \<noteq> EvalTemporal e)
        \<and> (evalToDateTime L date (- 1) = None
             \<or> (\<exists>d. evalToDateTime L date (- 1) = Some d \<and> isZero d)) \<longrightarrow>
      dateTimeUnixTimestamp L envA date =
        (case date of
           EvalInt64 _ \<Rightarrow> EvalInt64 0
         | EvalUint64 _ \<Rightarrow> EvalInt64 0
         | EvalDecimal _ len \<Rightarrow> EvalDecimal 0 len
         | EvalBytes d \<Rightarrow> if isHexLiteral d then EvalInt64 0 else EvalDecimal 0 6
         | _ \<Rightarrow> EvalDecimal 0 6)"
    using dateTimeUnixTimestamp_fallback [of date L envA] by blast
  show ?thesis using a b c d by (intro conjI)
qed

theorem not_nullable_never_null_witness:
  "(\<exists>v. clock_eval sampleLib epoch (CallSysdate sampleSysdate) sampleEnv
          = (Inr (Some v), sampleEnv))
   \<and> (\<exists>t. clock_typeof (CallSysdate sampleSysdate) sampleEnv [] = Inr (t, {}))
   \<and> (\<exists>f'. builtinUnixTimestamp_typeof (mkCall [constExpr (Some sampleText) textType])
               sampleEnv [] = Inr (Int64, f')
             \<and> flagNullable \<notin> f')
   \<and> builtinUnixTimestamp_eval sampleLib (mkCall [constExpr (Some sampleText) textType])
        sampleEnv
       = (Inr (Some (EvalDecimal 0 6)), sampleEnv)
   \<and> builtinUnixTimestamp_eval sampleLib (mkCall (intArgs [5])) sampleEnv
       = (Inr (Some (EvalInt64 0)), sampleEnv)"
proof -
  have a: "(\<exists>t. clock_typeof (CallSysdate sampleSysdate) sampleEnv [] = Inr (t, {}))
      \<and> (\<exists>v. clock_eval sampleLib epoch (CallSysdate sampleSysdate) sampleEnv
               = (Inr (Some v), sampleEnv))"
    using not_nullable_never_null
      [where c = "CallSysdate sampleSysdate" and env = sampleEnv and flds = "[]"
         and L = sampleLib and s = epoch, THEN conjunct1]
    by simp
  have ty: "typeofArg (mkCall [constExpr (Some sampleText) textType]) 0 sampleEnv []
              = Inr (VarChar, {})"
    by (simp add: typeofArg_def mkCall_def constExpr_def textType_def)
  have b: "\<exists>f'. builtinUnixTimestamp_typeof (mkCall [constExpr (Some sampleText) textType])
               sampleEnv [] = Inr (Int64, f')
             \<and> flagNullable \<notin> f'"
    using not_nullable_never_null
      [where b = "mkCall [constExpr (Some sampleText) textType]" and env = sampleEnv
         and flds = "[]" and tt = VarChar and f = "{}", THEN conjunct2, THEN conjunct1]
      ty
    by (simp add: mkCall_def)
  have ev: "arg1 (mkCall [constExpr (Some sampleText) textType]) sampleEnv
              = (Inr (Some sampleText), sampleEnv)"
    by (simp add: arg1_def evalArg_def mkCall_def constExpr_def)
  have nt: "\<forall>e. sampleText \<noteq> EvalTemporal e"
    by (simp add: sampleText_def newEvalText_def newEvalRaw_def)
  have np: "evalToDateTime sampleLib sampleText (- 1) = None"
    by (simp add: sampleLib_def sample_toTemporal_def sampleText_def newEvalText_def
        newEvalRaw_def)
  have c: "builtinUnixTimestamp_eval sampleLib (mkCall [constExpr (Some sampleText) textType])
        sampleEnv
       = (Inr (Some (EvalDecimal 0 6)), sampleEnv)"
    using not_nullable_never_null
        [where b = "mkCall [constExpr (Some sampleText) textType]" and env = sampleEnv
           and L = sampleLib and date = sampleText and envA = sampleEnv,
         THEN conjunct2, THEN conjunct2] ev nt np
    by (simp add: mkCall_def sampleText_def newEvalText_def newEvalRaw_def)
  have ev5: "arg1 (mkCall (intArgs [5])) sampleEnv = (Inr (Some (EvalInt64 5)), sampleEnv)"
    by (simp add: arg1_def evalArg_intArgs)
  have np5: "evalToDateTime sampleLib (EvalInt64 5) (- 1) = None"
    by (simp add: sampleLib_def sample_toTemporal_def)
  have d: "builtinUnixTimestamp_eval sampleLib (mkCall (intArgs [5])) sampleEnv
       = (Inr (Some (EvalInt64 0)), sampleEnv)"
    using not_nullable_never_null
        [where b = "mkCall (intArgs [5])" and env = sampleEnv
           and L = sampleLib and date = "EvalInt64 5" and envA = sampleEnv,
         THEN conjunct2, THEN conjunct2] ev5 np5
    by (simp add: mkCall_def intArgs_def)
  show ?thesis using a b c d by blast
qed

section \<open>The range and the precision of FROM_UNIXTIME\<close>

lemma fromUnixtime_parts_kinds:
  "fromUnixtime_parts L (EvalInt64 i) = Inr (i, 0, 0)"
  "fromUnixtime_parts L (EvalUint64 u) = Inr (int64_of_uint64 u, 0, 0)"
  "Modf L f = (sf, ff) \<Longrightarrow>
     fromUnixtime_parts L (EvalFloat f) =
       Inr (int64_of_float64 L sf, int64_of_float64 L (f64_mul L ff f64_1e9), 6)"
  "sd = (if dec < 0 then - of_int \<lfloor>- dec\<rfloor> else of_int \<lfloor>dec\<rfloor>) \<Longrightarrow>
     fromUnixtime_parts L (EvalDecimal dec len) =
       Inr (decimal_Int64 L sd, decimal_Int64 L ((dec - sd) * 1000000000), len)"
  "\<not> isHexOrBitLiteral e \<Longrightarrow> Modf L (evalToFloat L (EvalBytes e)) = (sf, ff) \<Longrightarrow>
     fromUnixtime_parts L (EvalBytes e) =
       Inr (int64_of_float64 L sf, int64_of_float64 L (f64_mul L ff f64_1e9), 6)"
  "isHexOrBitLiteral e \<Longrightarrow> toNumericHex L e = Some u \<Longrightarrow>
     fromUnixtime_parts L (EvalBytes e) = Inr (int64_of_uint64 u, 0, 0)"
  "isHexOrBitLiteral e \<Longrightarrow> toNumericHex L e = None \<Longrightarrow>
     fromUnixtime_parts L (EvalBytes e) = Inl NilPointerDereference"
  by (simp_all add: fromUnixtime_parts_def Let_def)

lemma fromUnixtime_panic:
  assumes "arg1 b env = (Inr (Some (EvalBytes e)), envA)"
    and "isHexOrBitLiteral e" "toNumericHex L e = None"
  shows "builtinFromUnixtime_eval L b env = (Inl NilPointerDereference, envA)"
  using assms by (simp add: builtinFromUnixtime_eval_def fromUnixtime_parts_kinds)

lemma fromUnixtime_out_of_range:
  assumes "arg1 b env = (Inr (Some ts), envA)"
    and "fromUnixtime_parts L ts = Inr (sec, nano, p)"
    and "sec < 0 \<or> sec \<ge> 32536771200"
  shows "builtinFromUnixtime_eval L b env = (Inr None, envA)"
  using assms
  by (auto simp add: builtinFromUnixtime_eval_def maxUnixtime_def)

lemma fromUnixtime_in_range:
  assumes "arg1 b env = (Inr (Some ts), envA)"
    and "length (Arguments b) = 1"
    and "fromUnixtime_parts L ts = Inr (sec, nano, p)"
    and "0 \<le> sec" "sec < 32536771200"
  shows "builtinFromUnixtime_eval L b env =
           (Inr (Some (EvalTemporal (newEvalDateTime
              (NewDateTimeFromStd
                 (case currentTimezone envA of
                    Some z \<Rightarrow> In (time_Unix (Local L) sec nano) z
                  | None \<Rightarrow> time_Unix (Local L) sec nano)) p))), envA)"
  using assms
  by (simp add: builtinFromUnixtime_eval_def maxUnixtime_def Let_def)

lemma fromUnixtime_in_range_prec:
  assumes "arg1 b env = (Inr (Some ts), envA)"
    and "length (Arguments b) = 1"
    and "fromUnixtime_parts L ts = Inr (sec, nano, p)"
    and "0 \<le> sec" "sec < 32536771200"
  shows "resultPrec (fst (builtinFromUnixtime_eval L b env)) = Some (nat p)"
  by (simp add: fromUnixtime_in_range [OF assms] resultPrec_def newEvalDateTime_def)

lemma civil_epoch: "civilFromDays 0 = (1970, 1, 1)"
  by code_simp

lemma NewDateTimeFromStd_epoch:
  "NewDateTimeFromStd (In (time_Unix l 0 0) UTC) =
     \<lparr>dt_Date = \<lparr>d_year = 1970, d_month = 1, d_day = 1\<rparr>, dt_Time = zeroClock\<rparr>"
  by (simp add: NewDateTimeFromStd_def In_def time_Unix_def civilDate_def civilClock_def
      zoneOffset_def UTC_def FixedZone_apply civil_epoch zeroClock_def)

lemma arg1_sampleFromUnixtime:
  "arg1 (sampleFromUnixtime (constExpr v ct # xs)) env = (Inr v, env)"
  "arg1 (sampleFromUnixtime (intArgs (i # js))) env = (Inr (Some (EvalInt64 i)), env)"
  "length (Arguments (sampleFromUnixtime [x])) = 1"
  "length (Arguments (sampleFromUnixtime (intArgs [i]))) = 1"
  by (simp_all add: arg1_def evalArg_def sampleFromUnixtime_def constExpr_def intArgs_def)

text \<open>
  C4: FROM_UNIXTIME(0x010000000000000000), whose argument is a hexadecimal literal of nine
  bytes, the number 2 ^ 64, does not return null: the conversion of the literal to an
  unsigned 64-bit integer fails, the evaluation reads through the nil pointer it got and
  panics. MAKETIME with the same literal as its hour checks the conversion and returns a
  time. The integer arguments -1 and 32536771200 give null, and 0 gives the datetime
  1970-01-01 00:00:00 in the session zone UTC.
\<close>

theorem FROM_UNIXTIME_oversized_hex_literal:
  "builtinFromUnixtime_eval sampleLib
      (sampleFromUnixtime [constExpr (Some sampleLongHex) binaryType]) sampleEnv
     = (Inl NilPointerDereference, sampleEnv)
   \<and> builtinMaketime_eval sampleLib
        (mkCall [constExpr (Some sampleLongHex) binaryType,
                 constExpr (Some (EvalInt64 30)) intType,
                 constExpr (Some (EvalInt64 30)) intType]) sampleEnv
     = (Inr (Some (EvalTemporal (newEvalTime
          \<lparr>t_hour = 0, t_minute = 30, t_second = 30, t_nanosecond = 0, t_neg = False\<rparr> 0))),
        sampleEnv)
   \<and> builtinFromUnixtime_eval sampleLib (sampleFromUnixtime (intArgs [- 1])) sampleEnv
     = (Inr None, sampleEnv)
   \<and> builtinFromUnixtime_eval sampleLib (sampleFromUnixtime (intArgs [32536771200])) sampleEnv
     = (Inr None, sampleEnv)
   \<and> builtinFromUnixtime_eval sampleLib (sampleFromUnixtime (intArgs [0])) sampleEnv
     = (Inr (Some (EvalTemporal
          \<lparr>tmp_t = Datetime,
           tmp_dt = \<lparr>dt_Date = \<lparr>d_year = 1970, d_month = 1, d_day = 1\<rparr>,
                     dt_Time = zeroClock\<rparr>,
           tmp_prec = 0\<rparr>)), sampleEnv)"
proof -
  obtain e where e: "sampleLongHex = EvalBytes e" "isHexOrBitLiteral e"
      "sample_toNumericHex e = None"
    using sampleLongHex_value by blast
  have a: "builtinFromUnixtime_eval sampleLib
      (sampleFromUnixtime [constExpr (Some sampleLongHex) binaryType]) sampleEnv
     = (Inl NilPointerDereference, sampleEnv)"
    by (rule fromUnixtime_panic [where e = e])
       (simp_all add: arg1_sampleFromUnixtime e sampleLib_hex)
  have hr: "maketime_hour sampleLib sampleLongHex = 0"
    by (simp add: e maketime_hour_kinds sampleLib_hex)
  have p: "sample_ParseTimeInt64 3030 =
      (\<lparr>t_hour = 0, t_minute = 30, t_second = 30, t_nanosecond = 0, t_neg = False\<rparr>, True)"
    by (simp add: sample_ParseTimeInt64_def)
  have b: "builtinMaketime_eval sampleLib
        (mkCall [constExpr (Some sampleLongHex) binaryType,
                 constExpr (Some (EvalInt64 30)) intType,
                 constExpr (Some (EvalInt64 30)) intType]) sampleEnv
     = (Inr (Some (EvalTemporal (newEvalTime
          \<lparr>t_hour = 0, t_minute = 30, t_second = 30, t_nanosecond = 0, t_neg = False\<rparr> 0))),
        sampleEnv)"
    using maketime_eval_int
      [where b = "mkCall [constExpr (Some sampleLongHex) binaryType,
                          constExpr (Some (EvalInt64 30)) intType,
                          constExpr (Some (EvalInt64 30)) intType]"
         and env = sampleEnv and hr = sampleLongHex and envA = sampleEnv
         and mn = "EvalInt64 30" and envB = sampleEnv and sc = "EvalInt64 30"
         and envC = sampleEnv and L = sampleLib and h = 0 and m = 30 and si = 30]
    by (simp add: evalArg_constExpr sampleLib_ints hr p)
  have c: "builtinFromUnixtime_eval sampleLib (sampleFromUnixtime (intArgs [- 1])) sampleEnv
     = (Inr None, sampleEnv)"
    by (rule fromUnixtime_out_of_range [where ts = "EvalInt64 (- 1)" and sec = "- 1"])
       (simp_all add: arg1_sampleFromUnixtime fromUnixtime_parts_kinds)
  have d: "builtinFromUnixtime_eval sampleLib (sampleFromUnixtime (intArgs [32536771200]))
             sampleEnv = (Inr None, sampleEnv)"
    by (rule fromUnixtime_out_of_range
          [where ts = "EvalInt64 32536771200" and sec = 32536771200])
       (simp_all add: arg1_sampleFromUnixtime fromUnixtime_parts_kinds)
  have z: "currentTimezone sampleEnv = Some UTC"
    by (simp add: currentTimezone_def sampleEnv_def)
  have f: "builtinFromUnixtime_eval sampleLib (sampleFromUnixtime (intArgs [0])) sampleEnv
     = (Inr (Some (EvalTemporal
          \<lparr>tmp_t = Datetime,
           tmp_dt = \<lparr>dt_Date = \<lparr>d_year = 1970, d_month = 1, d_day = 1\<rparr>,
                     dt_Time = zeroClock\<rparr>,
           tmp_prec = 0\<rparr>)), sampleEnv)"
    using fromUnixtime_in_range
      [where b = "sampleFromUnixtime (intArgs [0])" and env = sampleEnv
         and ts = "EvalInt64 0" and envA = sampleEnv and L = sampleLib
         and sec = 0 and nano = 0 and p = 0]
    by (simp add: arg1_sampleFromUnixtime fromUnixtime_parts_kinds z NewDateTimeFromStd_epoch
        newEvalDateTime_def)
  show ?thesis using a b c d f by (intro conjI)
qed

text \<open>
  C7: FROM_UNIXTIME takes the precision of its result from the kind of its argument. With
  the seconds inside the range, an integer argument, signed or unsigned, gives a datetime
  of precision 0; a float argument is split by \<open>Modf\<close> into its integral seconds and its
  fraction and gives precision 6, and so does a string argument, which is first read as a
  float; a decimal argument is split into integral seconds and fraction and gives its own
  scale. A hexadecimal or bit literal is read as an unsigned integer and, when that
  conversion succeeds, gives precision 0 as an integer does.
\<close>

theorem FROM_UNIXTIME_precision:
  assumes "arg1 b env = (Inr (Some ts), envA)"
    and "length (Arguments b) = 1"
  shows
    "(\<forall>i. ts = EvalInt64 i \<and> 0 \<le> i \<and> i < 32536771200 \<longrightarrow>
        builtinFromUnixtime_eval L b env =
          (Inr (Some (EvalTemporal (newEvalDateTime
             (NewDateTimeFromStd
                (case currentTimezone envA of
                   Some z \<Rightarrow> In (time_Unix (Local L) i 0) z
                 | None \<Rightarrow> time_Unix (Local L) i 0)) 0))), envA)
        \<and> resultPrec (fst (builtinFromUnixtime_eval L b env)) = Some 0)
     \<and> (\<forall>u. ts = EvalUint64 u \<and> 0 \<le> int64_of_uint64 u \<and> int64_of_uint64 u < 32536771200 \<longrightarrow>
        builtinFromUnixtime_eval L b env =
          (Inr (Some (EvalTemporal (newEvalDateTime
             (NewDateTimeFromStd
                (case currentTimezone envA of
                   Some z \<Rightarrow> In (time_Unix (Local L) (int64_of_uint64 u) 0) z
                 | None \<Rightarrow> time_Unix (Local L) (int64_of_uint64 u) 0)) 0))), envA)
        \<and> resultPrec (fst (builtinFromUnixtime_eval L b env)) = Some 0)
     \<and> (\<forall>f sf ff. ts = EvalFloat f \<and> Modf L f = (sf, ff)
            \<and> 0 \<le> int64_of_float64 L sf \<and> int64_of_float64 L sf < 32536771200 \<longrightarrow>
        builtinFromUnixtime_eval L b env =
          (Inr (Some (EvalTemporal (newEvalDateTime
             (NewDateTimeFromStd
                (case currentTimezone envA of
                   Some z \<Rightarrow> In (time_Unix (Local L) (int64_of_float64 L sf)
                                   (int64_of_float64 L (f64_mul L ff f64_1e9))) z
                 | None \<Rightarrow> time_Unix (Local L) (int64_of_float64 L sf)
                             (int64_of_float64 L (f64_mul L ff f64_1e9)))) 6))), envA)
        \<and> resultPrec (fst (builtinFromUnixtime_eval L b env)) = Some 6)
     \<and> (\<forall>e sf ff. ts = EvalBytes e \<and> \<not> isHexOrBitLiteral e
            \<and> Modf L (evalToFloat L ts) = (sf, ff)
            \<and> 0 \<le> int64_of_float64 L sf \<and> int64_of_float64 L sf < 32536771200 \<longrightarrow>
        builtinFromUnixtime_eval L b env =
          (Inr (Some (EvalTemporal (newEvalDateTime
             (NewDateTimeFromStd
                (case currentTimezone envA of
                   Some z \<Rightarrow> In (time_Unix (Local L) (int64_of_float64 L sf)
                                   (int64_of_float64 L (f64_mul L ff f64_1e9))) z
                 | None \<Rightarrow> time_Unix (Local L) (int64_of_float64 L sf)
                             (int64_of_float64 L (f64_mul L ff f64_1e9)))) 6))), envA)
        \<and> resultPrec (fst (builtinFromUnixtime_eval L b env)) = Some 6)
     \<and> (\<forall>dec len sd. ts = EvalDecimal dec len
            \<and> sd = (if dec < 0 then - of_int \<lfloor>- dec\<rfloor> else of_int \<lfloor>dec\<rfloor>)
            \<and> 0 \<le> decimal_Int64 L sd \<and> decimal_Int64 L sd < 32536771200 \<longrightarrow>
        builtinFromUnixtime_eval L b env =
          (Inr (Some (EvalTemporal (newEvalDateTime
             (NewDateTimeFromStd
                (case currentTimezone envA of
                   Some z \<Rightarrow> In (time_Unix (Local L) (decimal_Int64 L sd)
                                   (decimal_Int64 L ((dec - sd) * 1000000000))) z
                 | None \<Rightarrow> time_Unix (Local L) (decimal_Int64 L sd)
                             (decimal_Int64 L ((dec - sd) * 1000000000)))) len))), envA)
        \<and> resultPrec (fst (builtinFromUnixtime_eval L b env)) = Some (nat len))
     \<and> (\<forall>e u. ts = EvalBytes e \<and> isHexOrBitLiteral e \<and> toNumericHex L e = Some u
            \<and> 0 \<le> int64_of_uint64 u \<and> int64_of_uint64 u < 32536771200 \<longrightarrow>
        builtinFromUnixtime_eval L b env =
          (Inr (Some (EvalTemporal (newEvalDateTime
             (NewDateTimeFromStd
                (case currentTimezone envA of
                   Some z \<Rightarrow> In (time_Unix (Local L) (int64_of_uint64 u) 0) z
                 | None \<Rightarrow> time_Unix (Local L) (int64_of_uint64 u) 0)) 0))), envA)
        \<and> resultPrec (fst (builtinFromUnixtime_eval L b env)) = Some 0)"
proof -
  note ir = fromUnixtime_in_range [OF assms] fromUnixtime_in_range_prec [OF assms]
  have k1: "\<forall>i. ts = EvalInt64 i \<and> 0 \<le> i \<and> i < 32536771200 \<longrightarrow>
        builtinFromUnixtime_eval L b env =
          (Inr (Some (EvalTemporal (newEvalDateTime
             (NewDateTimeFromStd
                (case currentTimezone envA of
                   Some z \<Rightarrow> In (time_Unix (Local L) i 0) z
                 | None \<Rightarrow> time_Unix (Local L) i 0)) 0))), envA)
        \<and> resultPrec (fst (builtinFromUnixtime_eval L b env)) = Some 0"
  proof (intro allI impI, elim conjE)
    fix i assume t: "ts = EvalInt64 i" and r: "0 \<le> i" "i < 32536771200"
    have q: "fromUnixtime_parts L ts = Inr (i, 0, 0)"
      unfolding t by (rule fromUnixtime_parts_kinds)
    show "builtinFromUnixtime_eval L b env =
          (Inr (Some (EvalTemporal (newEvalDateTime
             (NewDateTimeFromStd
                (case currentTimezone envA of
                   Some z \<Rightarrow> In (time_Unix (Local L) i 0) z
                 | None \<Rightarrow> time_Unix (Local L) i 0)) 0))), envA)
        \<and> resultPrec (fst (builtinFromUnixtime_eval L b env)) = Some 0"
      using ir [OF q r] by simp
  qed
  have k2: "\<forall>u. ts = EvalUint64 u \<and> 0 \<le> int64_of_uint64 u \<and> int64_of_uint64 u < 32536771200 \<longrightarrow>
        builtinFromUnixtime_eval L b env =
          (Inr (Some (EvalTemporal (newEvalDateTime
             (NewDateTimeFromStd
                (case currentTimezone envA of
                   Some z \<Rightarrow> In (time_Unix (Local L) (int64_of_uint64 u) 0) z
                 | None \<Rightarrow> time_Unix (Local L) (int64_of_uint64 u) 0)) 0))), envA)
        \<and> resultPrec (fst (builtinFromUnixtime_eval L b env)) = Some 0"
  proof (intro allI impI, elim conjE)
    fix u assume t: "ts = EvalUint64 u"
      and r: "0 \<le> int64_of_uint64 u" "int64_of_uint64 u < 32536771200"
    have q: "fromUnixtime_parts L ts = Inr (int64_of_uint64 u, 0, 0)"
      unfolding t by (rule fromUnixtime_parts_kinds)
    show "builtinFromUnixtime_eval L b env =
          (Inr (Some (EvalTemporal (newEvalDateTime
             (NewDateTimeFromStd
                (case currentTimezone envA of
                   Some z \<Rightarrow> In (time_Unix (Local L) (int64_of_uint64 u) 0) z
                 | None \<Rightarrow> time_Unix (Local L) (int64_of_uint64 u) 0)) 0))), envA)
        \<and> resultPrec (fst (builtinFromUnixtime_eval L b env)) = Some 0"
      using ir [OF q r] by simp
  qed
  have k3: "\<forall>f sf ff. ts = EvalFloat f \<and> Modf L f = (sf, ff)
            \<and> 0 \<le> int64_of_float64 L sf \<and> int64_of_float64 L sf < 32536771200 \<longrightarrow>
        builtinFromUnixtime_eval L b env =
          (Inr (Some (EvalTemporal (newEvalDateTime
             (NewDateTimeFromStd
                (case currentTimezone envA of
                   Some z \<Rightarrow> In (time_Unix (Local L) (int64_of_float64 L sf)
                                   (int64_of_float64 L (f64_mul L ff f64_1e9))) z
                 | None \<Rightarrow> time_Unix (Local L) (int64_of_float64 L sf)
                             (int64_of_float64 L (f64_mul L ff f64_1e9)))) 6))), envA)
        \<and> resultPrec (fst (builtinFromUnixtime_eval L b env)) = Some 6"
  proof (intro allI impI, elim conjE)
    fix f sf ff assume t: "ts = EvalFloat f" and m: "Modf L f = (sf, ff)"
      and r: "0 \<le> int64_of_float64 L sf" "int64_of_float64 L sf < 32536771200"
    have q: "fromUnixtime_parts L ts =
               Inr (int64_of_float64 L sf, int64_of_float64 L (f64_mul L ff f64_1e9), 6)"
      unfolding t using m by (rule fromUnixtime_parts_kinds)
    show "builtinFromUnixtime_eval L b env =
          (Inr (Some (EvalTemporal (newEvalDateTime
             (NewDateTimeFromStd
                (case currentTimezone envA of
                   Some z \<Rightarrow> In (time_Unix (Local L) (int64_of_float64 L sf)
                                   (int64_of_float64 L (f64_mul L ff f64_1e9))) z
                 | None \<Rightarrow> time_Unix (Local L) (int64_of_float64 L sf)
                             (int64_of_float64 L (f64_mul L ff f64_1e9)))) 6))), envA)
        \<and> resultPrec (fst (builtinFromUnixtime_eval L b env)) = Some 6"
      using ir [OF q r] by simp
  qed
  have k4: "\<forall>e sf ff. ts = EvalBytes e \<and> \<not> isHexOrBitLiteral e
            \<and> Modf L (evalToFloat L ts) = (sf, ff)
            \<and> 0 \<le> int64_of_float64 L sf \<and> int64_of_float64 L sf < 32536771200 \<longrightarrow>
        builtinFromUnixtime_eval L b env =
          (Inr (Some (EvalTemporal (newEvalDateTime
             (NewDateTimeFromStd
                (case currentTimezone envA of
                   Some z \<Rightarrow> In (time_Unix (Local L) (int64_of_float64 L sf)
                                   (int64_of_float64 L (f64_mul L ff f64_1e9))) z
                 | None \<Rightarrow> time_Unix (Local L) (int64_of_float64 L sf)
                             (int64_of_float64 L (f64_mul L ff f64_1e9)))) 6))), envA)
        \<and> resultPrec (fst (builtinFromUnixtime_eval L b env)) = Some 6"
  proof (intro allI impI, elim conjE)
    fix e sf ff assume t: "ts = EvalBytes e" and n: "\<not> isHexOrBitLiteral e"
      and m: "Modf L (evalToFloat L ts) = (sf, ff)"
      and r: "0 \<le> int64_of_float64 L sf" "int64_of_float64 L sf < 32536771200"
    have q: "fromUnixtime_parts L ts =
               Inr (int64_of_float64 L sf, int64_of_float64 L (f64_mul L ff f64_1e9), 6)"
      using m unfolding t by (rule fromUnixtime_parts_kinds(5) [OF n])
    show "builtinFromUnixtime_eval L b env =
          (Inr (Some (EvalTemporal (newEvalDateTime
             (NewDateTimeFromStd
                (case currentTimezone envA of
                   Some z \<Rightarrow> In (time_Unix (Local L) (int64_of_float64 L sf)
                                   (int64_of_float64 L (f64_mul L ff f64_1e9))) z
                 | None \<Rightarrow> time_Unix (Local L) (int64_of_float64 L sf)
                             (int64_of_float64 L (f64_mul L ff f64_1e9)))) 6))), envA)
        \<and> resultPrec (fst (builtinFromUnixtime_eval L b env)) = Some 6"
      using ir [OF q r] by simp
  qed
  have k5: "\<forall>dec len sd. ts = EvalDecimal dec len
            \<and> sd = (if dec < 0 then - of_int \<lfloor>- dec\<rfloor> else of_int \<lfloor>dec\<rfloor>)
            \<and> 0 \<le> decimal_Int64 L sd \<and> decimal_Int64 L sd < 32536771200 \<longrightarrow>
        builtinFromUnixtime_eval L b env =
          (Inr (Some (EvalTemporal (newEvalDateTime
             (NewDateTimeFromStd
                (case currentTimezone envA of
                   Some z \<Rightarrow> In (time_Unix (Local L) (decimal_Int64 L sd)
                                   (decimal_Int64 L ((dec - sd) * 1000000000))) z
                 | None \<Rightarrow> time_Unix (Local L) (decimal_Int64 L sd)
                             (decimal_Int64 L ((dec - sd) * 1000000000)))) len))), envA)
        \<and> resultPrec (fst (builtinFromUnixtime_eval L b env)) = Some (nat len)"
  proof (intro allI impI, elim conjE)
    fix dec :: Decimal and len and sd :: Decimal
    assume t: "ts = EvalDecimal dec len"
      and s: "sd = (if dec < 0 then - of_int \<lfloor>- dec\<rfloor> else of_int \<lfloor>dec\<rfloor>)"
      and r: "0 \<le> decimal_Int64 L sd" "decimal_Int64 L sd < 32536771200"
    have q: "fromUnixtime_parts L ts =
               Inr (decimal_Int64 L sd, decimal_Int64 L ((dec - sd) * 1000000000), len)"
      unfolding t using s by (rule fromUnixtime_parts_kinds)
    show "builtinFromUnixtime_eval L b env =
          (Inr (Some (EvalTemporal (newEvalDateTime
             (NewDateTimeFromStd
                (case currentTimezone envA of
                   Some z \<Rightarrow> In (time_Unix (Local L) (decimal_Int64 L sd)
                                   (decimal_Int64 L ((dec - sd) * 1000000000))) z
                 | None \<Rightarrow> time_Unix (Local L) (decimal_Int64 L sd)
                             (decimal_Int64 L ((dec - sd) * 1000000000)))) len))), envA)
        \<and> resultPrec (fst (builtinFromUnixtime_eval L b env)) = Some (nat len)"
      using ir [OF q r] by simp
  qed
  have k6: "\<forall>e u. ts = EvalBytes e \<and> isHexOrBitLiteral e \<and> toNumericHex L e = Some u
            \<and> 0 \<le> int64_of_uint64 u \<and> int64_of_uint64 u < 32536771200 \<longrightarrow>
        builtinFromUnixtime_eval L b env =
          (Inr (Some (EvalTemporal (newEvalDateTime
             (NewDateTimeFromStd
                (case currentTimezone envA of
                   Some z \<Rightarrow> In (time_Unix (Local L) (int64_of_uint64 u) 0) z
                 | None \<Rightarrow> time_Unix (Local L) (int64_of_uint64 u) 0)) 0))), envA)
        \<and> resultPrec (fst (builtinFromUnixtime_eval L b env)) = Some 0"
  proof (intro allI impI, elim conjE)
    fix e u assume t: "ts = EvalBytes e" and n: "isHexOrBitLiteral e"
      and h: "toNumericHex L e = Some u"
      and r: "0 \<le> int64_of_uint64 u" "int64_of_uint64 u < 32536771200"
    have q: "fromUnixtime_parts L ts = Inr (int64_of_uint64 u, 0, 0)"
      unfolding t using n h by (rule fromUnixtime_parts_kinds)
    show "builtinFromUnixtime_eval L b env =
          (Inr (Some (EvalTemporal (newEvalDateTime
             (NewDateTimeFromStd
                (case currentTimezone envA of
                   Some z \<Rightarrow> In (time_Unix (Local L) (int64_of_uint64 u) 0) z
                 | None \<Rightarrow> time_Unix (Local L) (int64_of_uint64 u) 0)) 0))), envA)
        \<and> resultPrec (fst (builtinFromUnixtime_eval L b env)) = Some 0"
      using ir [OF q r] by simp
  qed
  show ?thesis using k1 k2 k3 k4 k5 k6 by (intro conjI)
qed

theorem FROM_UNIXTIME_precision_witness:
  "resultPrec (fst (builtinFromUnixtime_eval sampleLib
      (sampleFromUnixtime [constExpr (Some sampleText) textType]) sampleEnv)) = Some 6
   \<and> resultPrec (fst (builtinFromUnixtime_eval sampleLib
      (sampleFromUnixtime (intArgs [86400])) sampleEnv)) = Some 0
   \<and> resultPrec (fst (builtinFromUnixtime_eval sampleLib
      (sampleFromUnixtime [constExpr (Some (EvalUint64 86400)) intType]) sampleEnv)) = Some 0
   \<and> resultPrec (fst (builtinFromUnixtime_eval sampleLib
      (sampleFromUnixtime [constExpr (Some (EvalFloat 0)) decimalType]) sampleEnv)) = Some 6
   \<and> resultPrec (fst (builtinFromUnixtime_eval sampleLib
      (sampleFromUnixtime [constExpr (Some (EvalDecimal 2 1)) decimalType]) sampleEnv))
      = Some 1
   \<and> resultPrec (fst (builtinFromUnixtime_eval sampleLib
      (sampleFromUnixtime [constExpr (Some sampleHex) binaryType]) sampleEnv)) = Some 0"
proof -
  have ev: "arg1 (sampleFromUnixtime [constExpr (Some v) ct]) sampleEnv
              = (Inr (Some v), sampleEnv)" for v ct
    by (rule arg1_sampleFromUnixtime)
  have n: "length (Arguments (sampleFromUnixtime [x])) = 1" for x
    by (rule arg1_sampleFromUnixtime)
  have mf: "Modf sampleLib f = (f, 0)" "int64_of_float64 sampleLib f = 0"
      "decimal_Int64 sampleLib d = \<lfloor>d\<rfloor>" for f d
    by (simp_all add: sampleLib_def)
  have a: "resultPrec (fst (builtinFromUnixtime_eval sampleLib
      (sampleFromUnixtime [constExpr (Some sampleText) textType]) sampleEnv)) = Some 6"
    using FROM_UNIXTIME_precision [OF ev [of sampleText textType] n, where L = sampleLib]
    by (simp add: resultPrec_def newEvalDateTime_def sampleText_def newEvalText_def newEvalRaw_def isHexOrBitLiteral_def mf)
  have b: "resultPrec (fst (builtinFromUnixtime_eval sampleLib
      (sampleFromUnixtime (intArgs [86400])) sampleEnv)) = Some 0"
    using FROM_UNIXTIME_precision [OF ev [of "EvalInt64 86400" intType] n, where L = sampleLib]
    by (simp add: resultPrec_def newEvalDateTime_def intArgs_def)
  have c: "resultPrec (fst (builtinFromUnixtime_eval sampleLib
      (sampleFromUnixtime [constExpr (Some (EvalUint64 86400)) intType]) sampleEnv)) = Some 0"
    using FROM_UNIXTIME_precision [OF ev [of "EvalUint64 86400" intType] n, where L = sampleLib]
    by (simp add: resultPrec_def newEvalDateTime_def int64_of_uint64_def MaxInt64_def)
  have d: "resultPrec (fst (builtinFromUnixtime_eval sampleLib
      (sampleFromUnixtime [constExpr (Some (EvalFloat 0)) decimalType]) sampleEnv)) = Some 6"
    using FROM_UNIXTIME_precision [OF ev [of "EvalFloat 0" decimalType] n, where L = sampleLib]
    by (simp add: resultPrec_def newEvalDateTime_def mf)
  have e: "resultPrec (fst (builtinFromUnixtime_eval sampleLib
      (sampleFromUnixtime [constExpr (Some (EvalDecimal 2 1)) decimalType]) sampleEnv))
      = Some 1"
    using FROM_UNIXTIME_precision [OF ev [of "EvalDecimal 2 1" decimalType] n, where L = sampleLib]
    by (simp add: resultPrec_def newEvalDateTime_def mf)
  have f: "resultPrec (fst (builtinFromUnixtime_eval sampleLib
      (sampleFromUnixtime [constExpr (Some sampleHex) binaryType]) sampleEnv)) = Some 0"
    using FROM_UNIXTIME_precision [OF ev [of sampleHex binaryType] n, where L = sampleLib]
    by (simp add: resultPrec_def newEvalDateTime_def sampleHex_value sampleLib_hex isHexOrBitLiteral_def int64_of_uint64_def
        MaxInt64_def)
  show ?thesis using a b c d e f by (intro conjI)
qed

section \<open>The result type of DATE_ADD and DATE_SUB\<close>

lemma dateMath_typeof_type:
  assumes "typeofArg call 0 env flds = Inr (tt, f)"
  shows "builtinDateMath_typeof call env flds =
           Inr (if tt = Date \<and> \<not> HasTimeParts (dm_unit call) then Date
                else if tt = Time \<and> \<not> HasDateParts (dm_unit call) then Time
                else if tt = Datetime \<or> tt = Timestamp
                        \<or> (tt = Date \<and> HasTimeParts (dm_unit call))
                        \<or> (tt = Time \<and> HasDateParts (dm_unit call)) then Datetime
                else Char_t, insert flagNullable f)"
  using assms by (simp add: builtinDateMath_typeof_def)

lemma dateMath_eval_not_temporal:
  assumes "evalArg call 0 env = (Inr (Some date), envA)"
    and "evalArg call 1 envA = (Inr (Some itv), envB)"
    and "evalToInterval L itv (dm_unit call) (dm_sub call) = Some interval"
    and "\<forall>e. date \<noteq> EvalTemporal e"
  shows "builtinDateMath_eval L call env =
           (case evalToTemporal L date of
              Some tmp \<Rightarrow>
                (Inr (addInterval L tmp interval (defaultCoercionCollation (dm_collate call))),
                 envB)
            | None \<Rightarrow> (Inr None, envB))"
  using assms
  by (cases date) (simp_all add: builtinDateMath_eval_def split: option.splits)

text \<open>
  C6, as the source has it: the inferred type of DATE_ADD and DATE_SUB combines the
  operand's type with the parts of the interval unit. A Date operand with a unit that has
  no time parts gives Date; a Time operand with a unit that has no date parts gives Time;
  a Datetime or Timestamp operand, a Date operand with a unit that has time parts, and a
  Time operand with a unit that has date parts give Datetime; every other operand type
  gives the textual type Char; the result is always nullable. So a Date plus an hour
  is a Datetime and a Date plus a day is a Date. At run time an operand that is not a
  temporal value is converted to one: when the conversion succeeds the interval is added
  with the call's text collation, and when it fails the result is null.
\<close>

theorem DATE_ADD_result_type:
  "(typeofArg call 0 env flds = Inr (tt, f) \<longrightarrow>
      (\<exists>t. builtinDateMath_typeof call env flds = Inr (t, insert flagNullable f)
         \<and> (tt = Date \<and> \<not> HasTimeParts (dm_unit call) \<longrightarrow> t = Date)
         \<and> (tt = Time \<and> \<not> HasDateParts (dm_unit call) \<longrightarrow> t = Time)
         \<and> (tt = Datetime \<or> tt = Timestamp
              \<or> (tt = Date \<and> HasTimeParts (dm_unit call))
              \<or> (tt = Time \<and> HasDateParts (dm_unit call)) \<longrightarrow> t = Datetime)
         \<and> (tt \<noteq> Date \<and> tt \<noteq> Time \<and> tt \<noteq> Datetime \<and> tt \<noteq> Timestamp \<longrightarrow> t = Char_t)
         \<and> (tt = Date \<and> dm_unit call = IntervalHour \<longrightarrow> t = Datetime)
         \<and> (tt = Date \<and> dm_unit call = IntervalDay \<longrightarrow> t = Date)))
   \<and> (evalArg call 0 env = (Inr (Some date), envA)
        \<and> evalArg call 1 envA = (Inr (Some itv), envB)
        \<and> evalToInterval L itv (dm_unit call) (dm_sub call) = Some interval
        \<and> (\<forall>e. date \<noteq> EvalTemporal e) \<longrightarrow>
        builtinDateMath_eval L call env =
          (case evalToTemporal L date of
             Some tmp \<Rightarrow>
               (Inr (addInterval L tmp interval (defaultCoercionCollation (dm_collate call))),
                envB)
           | None \<Rightarrow> (Inr None, envB)))"
proof -
  have a: "typeofArg call 0 env flds = Inr (tt, f) \<longrightarrow>
      (\<exists>t. builtinDateMath_typeof call env flds = Inr (t, insert flagNullable f)
         \<and> (tt = Date \<and> \<not> HasTimeParts (dm_unit call) \<longrightarrow> t = Date)
         \<and> (tt = Time \<and> \<not> HasDateParts (dm_unit call) \<longrightarrow> t = Time)
         \<and> (tt = Datetime \<or> tt = Timestamp
              \<or> (tt = Date \<and> HasTimeParts (dm_unit call))
              \<or> (tt = Time \<and> HasDateParts (dm_unit call)) \<longrightarrow> t = Datetime)
         \<and> (tt \<noteq> Date \<and> tt \<noteq> Time \<and> tt \<noteq> Datetime \<and> tt \<noteq> Timestamp \<longrightarrow> t = Char_t)
         \<and> (tt = Date \<and> dm_unit call = IntervalHour \<longrightarrow> t = Datetime)
         \<and> (tt = Date \<and> dm_unit call = IntervalDay \<longrightarrow> t = Date))"
  proof
    assume h: "typeofArg call 0 env flds = Inr (tt, f)"
    show "\<exists>t. builtinDateMath_typeof call env flds = Inr (t, insert flagNullable f)
         \<and> (tt = Date \<and> \<not> HasTimeParts (dm_unit call) \<longrightarrow> t = Date)
         \<and> (tt = Time \<and> \<not> HasDateParts (dm_unit call) \<longrightarrow> t = Time)
         \<and> (tt = Datetime \<or> tt = Timestamp
              \<or> (tt = Date \<and> HasTimeParts (dm_unit call))
              \<or> (tt = Time \<and> HasDateParts (dm_unit call)) \<longrightarrow> t = Datetime)
         \<and> (tt \<noteq> Date \<and> tt \<noteq> Time \<and> tt \<noteq> Datetime \<and> tt \<noteq> Timestamp \<longrightarrow> t = Char_t)
         \<and> (tt = Date \<and> dm_unit call = IntervalHour \<longrightarrow> t = Datetime)
         \<and> (tt = Date \<and> dm_unit call = IntervalDay \<longrightarrow> t = Date)"
      unfolding dateMath_typeof_type [OF h] by auto
  qed
  have b: "evalArg call 0 env = (Inr (Some date), envA)
        \<and> evalArg call 1 envA = (Inr (Some itv), envB)
        \<and> evalToInterval L itv (dm_unit call) (dm_sub call) = Some interval
        \<and> (\<forall>e. date \<noteq> EvalTemporal e) \<longrightarrow>
        builtinDateMath_eval L call env =
          (case evalToTemporal L date of
             Some tmp \<Rightarrow>
               (Inr (addInterval L tmp interval (defaultCoercionCollation (dm_collate call))),
                envB)
           | None \<Rightarrow> (Inr None, envB))"
    using dateMath_eval_not_temporal [of call env date envA itv envB L interval] by blast
  show ?thesis using a b by (intro conjI)
qed

lemma sampleDateMath_args:
  "typeofArg (sampleDateMath u [constExpr v ct, a]) 0 env flds = Inr (Type ct, Flag ct)"
  "evalArg (sampleDateMath u [constExpr v ct, a]) 0 env = (Inr v, env)"
  "evalArg (sampleDateMath u [a, constExpr v ct]) 1 env = (Inr v, env)"
  "evalArg (sampleDateMath u [a, constExpr v ct]) (Suc 0) env = (Inr v, env)"
  "compileArg (sampleDateMath u [constExpr v ct, a]) 0 c = (Inr ct, emit (Op 0) c)"
  "compileArg (sampleDateMath u [a, constExpr v ct]) 1 c = (Inr ct, emit (Op 0) c)"
  "dm_unit (sampleDateMath u xs) = u"
  "dm_sub (sampleDateMath u xs) = False"
  "dm_collate (sampleDateMath u xs) = 255"
  by (simp_all add: typeofArg_def evalArg_def compileArg_def sampleDateMath_def constExpr_def)

lemma sample_interval:
  "evalToInterval sampleLib (EvalInt64 i) u n
     = Some \<lparr>itv_unit = u, itv_parts = [i], itv_negate = n\<rparr>"
  by (simp add: evalToInterval_def sampleLib_def sample_toInt64_def)

theorem DATE_ADD_result_type_witness:
  "builtinDateMath_typeof
      (sampleDateMath IntervalHour [constExpr None dateType, constExpr (Some (EvalInt64 1)) intType])
      sampleEnv [] = Inr (Datetime, {flagNullable})
   \<and> builtinDateMath_typeof
      (sampleDateMath IntervalDay [constExpr None dateType, constExpr (Some (EvalInt64 1)) intType])
      sampleEnv [] = Inr (Date, {flagNullable})
   \<and> builtinDateMath_typeof
      (sampleDateMath IntervalDay [constExpr None textType, constExpr (Some (EvalInt64 1)) intType])
      sampleEnv [] = Inr (Char_t, {flagNullable})
   \<and> builtinDateMath_eval sampleLib
      (sampleDateMath IntervalDay
         [constExpr (Some sampleText) textType, constExpr (Some (EvalInt64 1)) intType])
      sampleEnv = (Inr None, sampleEnv)"
proof -
  have a: "builtinDateMath_typeof
      (sampleDateMath IntervalHour [constExpr None dateType, constExpr (Some (EvalInt64 1)) intType])
      sampleEnv [] = Inr (Datetime, {flagNullable})"
    using DATE_ADD_result_type
      [where call = "sampleDateMath IntervalHour
                       [constExpr None dateType, constExpr (Some (EvalInt64 1)) intType]"
         and env = sampleEnv and flds = "[]" and tt = Date and f = "{}", THEN conjunct1]
    by (auto simp add: sampleDateMath_args dateType_def)
  have b: "builtinDateMath_typeof
      (sampleDateMath IntervalDay [constExpr None dateType, constExpr (Some (EvalInt64 1)) intType])
      sampleEnv [] = Inr (Date, {flagNullable})"
    using DATE_ADD_result_type
      [where call = "sampleDateMath IntervalDay
                       [constExpr None dateType, constExpr (Some (EvalInt64 1)) intType]"
         and env = sampleEnv and flds = "[]" and tt = Date and f = "{}", THEN conjunct1]
    by (auto simp add: sampleDateMath_args dateType_def)
  have c: "builtinDateMath_typeof
      (sampleDateMath IntervalDay [constExpr None textType, constExpr (Some (EvalInt64 1)) intType])
      sampleEnv [] = Inr (Char_t, {flagNullable})"
    using DATE_ADD_result_type
      [where call = "sampleDateMath IntervalDay
                       [constExpr None textType, constExpr (Some (EvalInt64 1)) intType]"
         and env = sampleEnv and flds = "[]" and tt = VarChar and f = "{}", THEN conjunct1]
    by (auto simp add: sampleDateMath_args textType_def)
  have nt: "\<forall>e. sampleText \<noteq> EvalTemporal e"
    by (simp add: sampleText_def newEvalText_def newEvalRaw_def)
  have np: "evalToTemporal sampleLib sampleText = None"
    by (simp add: sampleLib_def sample_toTemporal_def sampleText_def newEvalText_def
        newEvalRaw_def)
  have d: "builtinDateMath_eval sampleLib
      (sampleDateMath IntervalDay
         [constExpr (Some sampleText) textType, constExpr (Some (EvalInt64 1)) intType])
      sampleEnv = (Inr None, sampleEnv)"
    using nt DATE_ADD_result_type
      [where call = "sampleDateMath IntervalDay
         [constExpr (Some sampleText) textType, constExpr (Some (EvalInt64 1)) intType]"
         and env = sampleEnv and envA = sampleEnv and envB = sampleEnv and L = sampleLib
         and date = sampleText and itv = "EvalInt64 1"
         and interval = "\<lparr>itv_unit = IntervalDay, itv_parts = [1], itv_negate = False\<rparr>",
         THEN conjunct2]
    by (simp add: sampleDateMath_args sample_interval np)
  show ?thesis using a b c d by (intro conjI)
qed

theorem DATE_ADD_unparsable_text_counterexample:
  "fst (builtinDateMath_eval sampleLib
      (sampleDateMath IntervalDay
         [constExpr (Some sampleText) textType, constExpr (Some (EvalInt64 1)) intType])
      sampleEnv) = Inr None"
proof -
  have nt: "\<forall>e. sampleText \<noteq> EvalTemporal e"
    by (simp add: sampleText_def newEvalText_def newEvalRaw_def)
  have np: "evalToTemporal sampleLib sampleText = None"
    by (simp add: sampleLib_def sample_toTemporal_def sampleText_def newEvalText_def
        newEvalRaw_def)
  show ?thesis
    using nt
    by (simp add: dateMath_eval_not_temporal
          [where L = sampleLib and envA = sampleEnv and envB = sampleEnv
             and itv = "EvalInt64 1"
             and interval = "\<lparr>itv_unit = IntervalDay, itv_parts = [1], itv_negate = False\<rparr>"]
          sampleDateMath_args sample_interval np)
qed

text \<open>
  The types of \<open>typeof\<close> and \<open>compile\<close> side by side: the flags agree, and the types agree
  for a temporal operand only.
\<close>

lemma dateMath_compile_type:
  assumes "compileArg call 0 c = (Inr date, cA)" "compileArg call 1 cA = (Inr itv, cB)"
  shows "\<exists>ct. fst (builtinDateMath_compile call c) = Inr ct
           \<and> Flag ct = insert flagNullable (Flag date)
           \<and> Type ct =
               (if Type date = Date \<and> \<not> HasTimeParts (dm_unit call) then Date
                else if Type date = Time \<and> \<not> HasDateParts (dm_unit call) then Time
                else if Type date = Datetime \<or> Type date = Timestamp
                        \<or> (Type date = Date \<and> HasTimeParts (dm_unit call))
                        \<or> (Type date = Time \<and> HasDateParts (dm_unit call)) then Datetime
                else VarChar)"
  using assms by (simp add: builtinDateMath_compile_def Let_def)

lemma dateMath_typeof_compile:
  assumes "typeofArg call 0 env flds = Inr (Type date, Flag date)"
    and "compileArg call 0 c = (Inr date, cA)" "compileArg call 1 cA = (Inr itv, cB)"
  shows "\<exists>t ct. builtinDateMath_typeof call env flds = Inr (t, Flag ct)
           \<and> fst (builtinDateMath_compile call c) = Inr ct
           \<and> (if Type date \<in> {Date, Time, Datetime, Timestamp} then Type ct = t
               else t = Char_t \<and> Type ct = VarChar)"
proof -
  obtain ct where ct: "fst (builtinDateMath_compile call c) = Inr ct"
      "Flag ct = insert flagNullable (Flag date)"
      "Type ct =
               (if Type date = Date \<and> \<not> HasTimeParts (dm_unit call) then Date
                else if Type date = Time \<and> \<not> HasDateParts (dm_unit call) then Time
                else if Type date = Datetime \<or> Type date = Timestamp
                        \<or> (Type date = Date \<and> HasTimeParts (dm_unit call))
                        \<or> (Type date = Time \<and> HasDateParts (dm_unit call)) then Datetime
                else VarChar)"
    using dateMath_compile_type [OF assms(2,3)] by blast
  show ?thesis
    using ct by (auto simp add: dateMath_typeof_type [OF assms(1)])
qed

text \<open>
  C1: for DATE_ADD over an operand whose static type is not temporal, here the integer
  operand of DATE_ADD(20240101, INTERVAL 1 DAY), \<open>typeof\<close> reports the type Char and
  \<open>compile\<close> returns the type VarChar.
\<close>

theorem DATE_ADD_typeof_Char_compile_VarChar:
  "builtinDateMath_typeof (sampleDateMath IntervalDay (intArgs [20240101, 1])) sampleEnv []
     = Inr (Char_t, {flagNullable})
   \<and> fst (builtinDateMath_compile (sampleDateMath IntervalDay (intArgs [20240101, 1]))
            emptyCompiler)
     = Inr \<lparr>Type = VarChar, Flag = {flagNullable}, Col = defaultCoercionCollation 255\<rparr>
   \<and> Char_t \<noteq> VarChar"
  by (simp add: builtinDateMath_typeof_def builtinDateMath_compile_def typeofArg_def
      compileArg_def sampleDateMath_def intArgs_def constExpr_def intType_def emit_def
      emptyCompiler_def Let_def)

section \<open>Statement time and the system clock\<close>

lemma clock_eval_cached:
  assumes "readsClock c" "\<not> isSysdate c" "env_now env = env_now env'"
  shows "fst (clock_eval L s c env) = fst (clock_eval L s' c env')"
    and "snd (clock_eval L s c env) = env"
  using assms
  by (cases c;
      simp add: builtinNow_eval_def builtinCurdate_eval_def builtinUtcDate_eval_def
        builtinUnixTimestamp_eval_def env_time_def Let_def)+

lemma clock_eval_sysdate:
  "clock_eval L s (CallSysdate b) env =
     (Inr (Some (newEvalRaw Datetime
        (DateTime_Format L
           (NewDateTimeFromStd (case currentTimezone env of Some z \<Rightarrow> In s z | None \<Rightarrow> s))
           (sysdate_prec b))
        collationBinary)), env)"
  by (simp add: builtinSysdate_eval_def)

text \<open>
  C2, as the source has it: NOW, CURRENT_TIME, CURDATE, UTC_DATE and UNIX_TIMESTAMP without
  argument return a result that depends only on the instant cached in the environment:
  two evaluations with environments that hold the same instant agree, whatever the system
  clock reads at either call, and the environment is left as it was. SYSDATE does not use
  the cached instant: its result is the reading of the system clock at the call, shown in
  the session time zone.
\<close>

theorem statement_time_from_cached_instant:
  "(readsClock c \<and> \<not> isSysdate c \<and> env_now env = env_now env' \<longrightarrow>
      fst (clock_eval L s c env) = fst (clock_eval L s' c env')
      \<and> snd (clock_eval L s c env) = env)
   \<and> clock_eval L s (CallSysdate b) env =
       (Inr (Some (newEvalRaw Datetime
          (DateTime_Format L
             (NewDateTimeFromStd (case currentTimezone env of Some z \<Rightarrow> In s z | None \<Rightarrow> s))
             (sysdate_prec b))
          collationBinary)), env)"
proof (intro conjI impI)
  assume h: "readsClock c \<and> \<not> isSysdate c \<and> env_now env = env_now env'"
  then have h1: "readsClock c" and h2: "\<not> isSysdate c" and h3: "env_now env = env_now env'"
    by simp_all
  show "fst (clock_eval L s c env) = fst (clock_eval L s' c env')"
    by (rule clock_eval_cached(1) [OF h1 h2 h3])
  show "snd (clock_eval L s c env) = env"
    by (rule clock_eval_cached(2) [OF h1 h2 h3])
next
  show "clock_eval L s (CallSysdate b) env =
       (Inr (Some (newEvalRaw Datetime
          (DateTime_Format L
             (NewDateTimeFromStd (case currentTimezone env of Some z \<Rightarrow> In s z | None \<Rightarrow> s))
             (sysdate_prec b))
          collationBinary)), env)"
    by (rule clock_eval_sysdate)
qed

theorem statement_time_from_cached_instant_witness:
  "fst (clock_eval sampleLib epoch (CallNow sampleNow) sampleEnv)
     = fst (clock_eval sampleLib (epoch\<lparr>unixSec := 1\<rparr>) (CallNow sampleNow) sampleEnv)
   \<and> fst (clock_eval sampleLib epoch (CallUnixTimestamp (mkCall [])) sampleEnv)
     = fst (clock_eval sampleLib (epoch\<lparr>unixSec := 1\<rparr>) (CallUnixTimestamp (mkCall []))
              sampleEnv)"
proof (intro conjI)
  have h: "readsClock (CallNow sampleNow) \<and> \<not> isSysdate (CallNow sampleNow)
      \<and> env_now sampleEnv = env_now sampleEnv"
    by simp
  show "fst (clock_eval sampleLib epoch (CallNow sampleNow) sampleEnv)
     = fst (clock_eval sampleLib (epoch\<lparr>unixSec := 1\<rparr>) (CallNow sampleNow) sampleEnv)"
    by (rule statement_time_from_cached_instant
          [where c = "CallNow sampleNow" and env = sampleEnv and env' = sampleEnv,
           THEN conjunct1, THEN mp, OF h, THEN conjunct1])
  have k: "readsClock (CallUnixTimestamp (mkCall []))
      \<and> \<not> isSysdate (CallUnixTimestamp (mkCall []))
      \<and> env_now sampleEnv = env_now sampleEnv"
    by (simp add: mkCall_def)
  show "fst (clock_eval sampleLib epoch (CallUnixTimestamp (mkCall [])) sampleEnv)
     = fst (clock_eval sampleLib (epoch\<lparr>unixSec := 1\<rparr>) (CallUnixTimestamp (mkCall []))
              sampleEnv)"
    by (rule statement_time_from_cached_instant
          [where c = "CallUnixTimestamp (mkCall [])" and env = sampleEnv and env' = sampleEnv,
           THEN conjunct1, THEN mp, OF k, THEN conjunct1])
qed

lemma digits2_distinct: "digits2 0 \<noteq> digits2 1" "digits2 0 \<noteq> digits2 (Suc 0)"
  by (simp_all add: digits2_def digit_def)

theorem SYSDATE_reads_system_clock_counterexample:
  "readsClock (CallSysdate sampleSysdate)
   \<and> fst (clock_eval sampleLib epoch (CallSysdate sampleSysdate) sampleEnv)
      \<noteq> fst (clock_eval sampleLib (epoch\<lparr>unixSec := 1\<rparr>) (CallSysdate sampleSysdate) sampleEnv)"
  by (simp add: builtinSysdate_eval_def currentTimezone_def sampleEnv_def sampleLib_def
      epoch_def In_def NewDateTimeFromStd_def civilDate_def civilClock_def civil_epoch
      zoneOffset_def UTC_def FixedZone_apply sample_date_def sample_clock_def newEvalRaw_def sampleSysdate_def digits2_distinct)

end
